theory Spec2Isabelle
  imports Complex_Main "HOL-Library.AList"
begin

section \<open>JavaScript numbers\<close>

text \<open>
  A JavaScript \<open>number\<close> is an IEEE 754 binary64 value.  Every finite one is a
  rational, and a number is modelled by the rational it denotes.  The operators
  \<open>+\<close>, \<open>-\<close>, \<open>*\<close> and \<open>/\<close> return the exact result rounded to the
  nearest binary64 value, ties to the even significand (\<open>fadd\<close>, \<open>fsub\<close>,
  \<open>fmul\<close>, \<open>fdiv\<close> below); comparisons, \<open>Math.abs\<close>, \<open>Math.min\<close> and
  \<open>Math.round\<close> are exact.  \<open>NaN\<close>, the infinities and the sign of zero are
  outside the model: it follows the program as long as no result reaches
  \<open>2^1024\<close> in magnitude and no division is by zero (the program guards its
  divisions).
\<close>

definition pow2 :: "int \<Rightarrow> rat" where
  "pow2 k = (if k \<ge> 0 then 2 ^ nat k else 1 / 2 ^ nat (- k))"

text \<open>The number of binary digits of a positive integer.\<close>

function bitLength :: "int \<Rightarrow> int" where
  "bitLength n = (if n \<le> 0 then 0 else 1 + bitLength (n div 2))"
  by pat_completeness auto
termination
  by (relation "measure nat") auto

text \<open>\<open>exponentOf x\<close> is the integer \<open>e\<close> with \<open>2^e \<le> |x| < 2^(e+1)\<close>, for \<open>x \<noteq> 0\<close>.\<close>

definition exponentOf :: "rat \<Rightarrow> int" where
  "exponentOf x =
     (let (p, q) = quotient_of \<bar>x\<bar>;
          d = bitLength p - bitLength q
      in if pow2 d \<le> \<bar>x\<bar> then d else d - 1)"

definition roundHalfEven :: "rat \<Rightarrow> int" where
  "roundHalfEven m =
     (let f = \<lfloor>m\<rfloor>; r = m - of_int f
      in if r < 1 / 2 then f else if r > 1 / 2 then f + 1
         else if even f then f else f + 1)"

text \<open>
  Rounding to binary64: 53 significant bits, and below \<open>2^(-1022)\<close> the fixed grid
  of the subnormal numbers, with spacing \<open>2^(-1074)\<close>.
\<close>

definition round64 :: "rat \<Rightarrow> rat" where
  "round64 x =
     (if x = 0 then 0
      else (let k = max (exponentOf x) (- 1022) - 52
            in of_int (roundHalfEven (x / pow2 k)) * pow2 k))"

definition fadd :: "rat \<Rightarrow> rat \<Rightarrow> rat" where
  "fadd a b = round64 (a + b)"

definition fsub :: "rat \<Rightarrow> rat \<Rightarrow> rat" where
  "fsub a b = round64 (a - b)"

definition fmul :: "rat \<Rightarrow> rat \<Rightarrow> rat" where
  "fmul a b = round64 (a * b)"

definition fdiv :: "rat \<Rightarrow> rat \<Rightarrow> rat" where
  "fdiv a b = round64 (a / b)"


section \<open>Approval flow (approval-flow.ts, types.ts)\<close>

text \<open>
  Conventions of the embedding.  A JavaScript \<open>Date\<close> is its time value, an
  \<open>int\<close> of milliseconds; a \<open>bigint\<close> is an \<open>int\<close>; a \<open>number\<close> is a
  \<open>rat\<close> with the rounding arithmetic of the previous section; \<open>Hex\<close> and
  \<open>Address\<close> are strings.  Every call of \<open>new Date()\<close>
  or \<open>Date.now()\<close> inside one operation reads the same instant, passed as the
  argument \<open>now\<close>.  Values that the source draws at random (\<open>nanoid\<close>) are
  arguments too.  A thrown exception is the \<open>Inl\<close> branch of a sum, and the state
  reached at the moment of the throw is returned beside it.
\<close>

datatype Protocol = AAVE_V3 | COMPOUND_V3 | MORPHO_BLUE | MOONWELL

datatype ProposalStatus =
  PENDING_APPROVAL | APPROVED | REJECTED | EXECUTED | EXPIRED | FAILED

datatype AuditEventType =
  PROPOSAL_CREATED | APPROVAL_REQUESTED | APPROVAL_RECEIVED | APPROVAL_REJECTED
  | APPROVAL_EXPIRED | EXECUTION_STARTED | EXECUTION_SUCCESS | EXECUTION_FAILED
  | SESSION_KEY_GRANTED | SESSION_KEY_REVOKED

record PackedUserOperation =
  sender :: string
  nonce :: int
  initCode :: string
  callData :: string
  accountGasLimits :: string
  preVerificationGas :: int
  gasFees :: string
  paymasterAndData :: string
  signature :: string

record WebAuthnAuth =
  authenticatorData :: string
  clientDataJSON :: string
  challengeIndex :: int
  typeIndex :: int
  sig_r :: int
  sig_s :: int

text \<open>\<open>RebalanceProposal\<close>; its field \<open>id\<close> is \<open>rp_id\<close> here.\<close>

record RebalanceProposal =
  rp_id :: string
  fromProtocol :: Protocol
  toProtocol :: Protocol
  amount :: int
  fromAPY :: rat
  toAPY :: rat
  apyDelta :: rat
  estimatedGasCost :: int
  createdAt :: int
  expiresAt :: int
  status :: ProposalStatus

text \<open>
  \<open>ApprovalRequest\<close>.  The display payload is produced by number formatting
  (\<open>Intl.NumberFormat\<close>, \<open>toFixed\<close>) that no claim depends on; its type is the
  parameter \<open>'d\<close> and the formatter is a field of the configuration below.
\<close>

record 'd ApprovalRequest =
  proposalId :: string
  vaultAddress :: string
  userOpHash :: string
  userOp :: PackedUserOperation
  displayData :: 'd
  approvalUrl :: string
  req_expiresAt :: int

record ApprovalResponse =
  resp_proposalId :: string
  approved :: bool
  resp_signature :: "string option"
  webAuthnAuth :: "WebAuthnAuth option"
  resp_timestamp :: int

text \<open>
  The four \<open>ApprovalFlowError\<close>s that \<open>processApproval\<close> throws, told apart by
  their messages: "No pending approval found for proposal ...", "Approval request
  has expired", "User rejected the approval request", "Missing WebAuthn signature in
  approval".
\<close>

datatype ApprovalFlowError = NotFound | Expired | Rejected | MissingSignature

text \<open>
  The injected collaborators: the wallet manager (only the two methods the flow
  calls; both are local computations, a hash and an ABI encoding), and the
  configuration.  The two private formatters of the class are fields of the
  configuration: \<open>formatDisplayData\<close>, and \<open>formatNotificationMessage\<close> with
  arguments the display data, \<open>expiresAt\<close> and the current instant.
\<close>

record 'd ApprovalNotification =
  ntf_proposalId :: string
  ntf_approvalUrl :: string
  message :: string
  ntf_displayData :: 'd
  ntf_expiresAt :: int

record WalletManager =
  getUserOpHash :: "PackedUserOperation \<Rightarrow> string"
  attachPasskeySignature :: "PackedUserOperation \<Rightarrow> WebAuthnAuth \<Rightarrow> PackedUserOperation"

record 'd ApprovalFlowConfig =
  approvalUiBaseUrl :: string
  approvalTimeout :: "int option"
  formatDisplayData :: "RebalanceProposal \<Rightarrow> 'd"
  formatNotificationMessage :: "'d \<Rightarrow> int \<Rightarrow> int \<Rightarrow> string"

definition DEFAULT_TIMEOUT :: int where
  "DEFAULT_TIMEOUT = 24 * 60 * 60 * 1000"

text \<open>
  The mutable state of an \<open>ApprovalFlow\<close>.  \<open>pendingApprovals\<close> is a JavaScript
  \<open>Map\<close>, whose iteration order is insertion order: an association list, with
  \<open>AList.update\<close> for \<open>set\<close> (replace in place, else append) and
  \<open>AList.delete\<close> for \<open>delete\<close>.  \<open>proposals\<close> is only ever looked up by key.
  \<open>audit\<close> is the trace of the entries handed to \<open>logAudit\<close> (event type and
  proposal id), most recent last.
\<close>

record 'd ApprovalFlow =
  pendingApprovals :: "(string \<times> 'd ApprovalRequest) list"
  proposals :: "string \<rightharpoonup> RebalanceProposal"
  audit :: "(AuditEventType \<times> string) list"

definition newApprovalFlow :: "'d ApprovalFlow" where
  "newApprovalFlow = \<lparr>pendingApprovals = [], proposals = Map.empty, audit = []\<rparr>"

definition logAudit :: "AuditEventType \<Rightarrow> string \<Rightarrow> 'd ApprovalFlow \<Rightarrow> 'd ApprovalFlow" where
  "logAudit ev pid s = s\<lparr>audit := audit s @ [(ev, pid)]\<rparr>"

definition createProposal ::
  "'d ApprovalFlowConfig \<Rightarrow> string \<Rightarrow> int \<Rightarrow> Protocol \<Rightarrow> Protocol \<Rightarrow> int \<Rightarrow> rat \<Rightarrow> rat \<Rightarrow> int
     \<Rightarrow> 'd ApprovalFlow \<Rightarrow> RebalanceProposal \<times> 'd ApprovalFlow" where
  "createProposal cfg newId now fromP toP amt fromA toA gas s =
     (let timeout = (case approvalTimeout cfg of None \<Rightarrow> DEFAULT_TIMEOUT | Some t \<Rightarrow> t);
          proposal = \<lparr>rp_id = newId, fromProtocol = fromP, toProtocol = toP, amount = amt,
                      fromAPY = fromA, toAPY = toA, apyDelta = fsub toA fromA,
                      estimatedGasCost = gas, createdAt = now, expiresAt = now + timeout,
                      status = PENDING_APPROVAL\<rparr>
      in (proposal,
          logAudit PROPOSAL_CREATED newId (s\<lparr>proposals := (proposals s)(newId \<mapsto> proposal)\<rparr>)))"

definition getProposal :: "'d ApprovalFlow \<Rightarrow> string \<Rightarrow> RebalanceProposal option" where
  "getProposal s pid = proposals s pid"

definition updateProposalStatus ::
  "string \<Rightarrow> ProposalStatus \<Rightarrow> 'd ApprovalFlow \<Rightarrow> 'd ApprovalFlow" where
  "updateProposalStatus pid st s =
     (case proposals s pid of
        None \<Rightarrow> s
      | Some proposal \<Rightarrow> s\<lparr>proposals := (proposals s)(pid \<mapsto> proposal\<lparr>status := st\<rparr>)\<rparr>)"

subsection \<open>The approval URL\<close>

text \<open>
  \<open>URLSearchParams.toString()\<close> is the application/x-www-form-urlencoded
  serialiser: the bytes of a name or value that are ASCII letters, digits or one of
  \<open>* - . _\<close> are kept, a space becomes \<open>+\<close>, every other byte becomes \<open>%\<close> and
  two upper-case hexadecimal digits; pairs are written \<open>name=value\<close> and joined
  by \<open>&\<close>.  Strings are byte sequences here (UTF-8).
\<close>

definition urlSafeChars :: string where
  "urlSafeChars =
     ''*-._0123456789ABCDEFGHIJKLMNOPQRSTUVWXYZabcdefghijklmnopqrstuvwxyz''"

definition hexDigit :: "nat \<Rightarrow> char" where
  "hexDigit n = ''0123456789ABCDEF'' ! (n mod 16)"

definition urlencodeByte :: "char \<Rightarrow> string" where
  "urlencodeByte c =
     (if c \<in> set urlSafeChars then [c]
      else if c = CHR '' '' then ''+''
      else [CHR ''%'', hexDigit (of_char c div 16), hexDigit (of_char c mod 16)])"

definition urlencode :: "string \<Rightarrow> string" where
  "urlencode v = concat (map urlencodeByte v)"

fun searchParamsToString :: "(string \<times> string) list \<Rightarrow> string" where
  "searchParamsToString [] = []"
| "searchParamsToString [(k, v)] = urlencode k @ ''='' @ urlencode v"
| "searchParamsToString ((k, v) # kvs) =
     urlencode k @ ''='' @ urlencode v @ ''&'' @ searchParamsToString kvs"

definition generateApprovalUrl ::
  "'d ApprovalFlowConfig \<Rightarrow> string \<Rightarrow> string \<Rightarrow> string \<Rightarrow> string" where
  "generateApprovalUrl cfg pid hash vault =
     approvalUiBaseUrl cfg @ ''?'' @
     searchParamsToString [(''id'', pid), (''hash'', hash), (''vault'', vault)]"

definition requestApproval ::
  "WalletManager \<Rightarrow> 'd ApprovalFlowConfig \<Rightarrow> int \<Rightarrow> RebalanceProposal \<Rightarrow> string
     \<Rightarrow> PackedUserOperation \<Rightarrow> 'd ApprovalFlow
     \<Rightarrow> ('d ApprovalRequest \<times> 'd ApprovalNotification) \<times> 'd ApprovalFlow" where
  "requestApproval wm cfg now proposal vault uop s =
     (let hash = getUserOpHash wm uop;
          dd = formatDisplayData cfg proposal;
          url = generateApprovalUrl cfg (rp_id proposal) hash vault;
          approvalRequest = \<lparr>proposalId = rp_id proposal, vaultAddress = vault, userOpHash = hash,
                             userOp = uop, displayData = dd, approvalUrl = url,
                             req_expiresAt = expiresAt proposal\<rparr>;
          s' = logAudit APPROVAL_REQUESTED (rp_id proposal)
                 (s\<lparr>pendingApprovals :=
                      AList.update (rp_id proposal) approvalRequest (pendingApprovals s)\<rparr>);
          notification = \<lparr>ntf_proposalId = rp_id proposal, ntf_approvalUrl = url,
                          message = formatNotificationMessage cfg dd (expiresAt proposal) now,
                          ntf_displayData = dd, ntf_expiresAt = expiresAt proposal\<rparr>
      in ((approvalRequest, notification), s'))"

subsection \<open>Processing a response\<close>

definition processApproval ::
  "WalletManager \<Rightarrow> int \<Rightarrow> ApprovalResponse \<Rightarrow> 'd ApprovalFlow
     \<Rightarrow> (ApprovalFlowError + PackedUserOperation) \<times> 'd ApprovalFlow" where
  "processApproval wm now response s =
     (let pid = resp_proposalId response in
      case map_of (pendingApprovals s) pid of
        None \<Rightarrow> (Inl NotFound, s)
      | Some pendingRequest \<Rightarrow>
          if now > req_expiresAt pendingRequest then
            (Inl Expired,
             logAudit APPROVAL_EXPIRED pid
               ((updateProposalStatus pid EXPIRED s)
                  \<lparr>pendingApprovals := AList.delete pid (pendingApprovals s)\<rparr>))
          else if \<not> approved response then
            (Inl Rejected,
             logAudit APPROVAL_REJECTED pid
               ((updateProposalStatus pid REJECTED s)
                  \<lparr>pendingApprovals := AList.delete pid (pendingApprovals s)\<rparr>))
          else
            (case webAuthnAuth response of
               None \<Rightarrow> (Inl MissingSignature, s)
             | Some auth \<Rightarrow>
                 (Inr (attachPasskeySignature wm (userOp pendingRequest) auth),
                  logAudit APPROVAL_RECEIVED pid
                    ((updateProposalStatus pid APPROVED s)
                       \<lparr>pendingApprovals := AList.delete pid (pendingApprovals s)\<rparr>))))"

definition rejectProposal :: "string \<Rightarrow> 'd ApprovalFlow \<Rightarrow> 'd ApprovalFlow" where
  "rejectProposal pid s =
     (case map_of (pendingApprovals s) pid of
        None \<Rightarrow> s
      | Some pendingRequest \<Rightarrow>
          logAudit APPROVAL_REJECTED pid
            ((updateProposalStatus pid REJECTED s)
               \<lparr>pendingApprovals := AList.delete pid (pendingApprovals s)\<rparr>))"

definition getPendingApprovals :: "'d ApprovalFlow \<Rightarrow> 'd ApprovalRequest list" where
  "getPendingApprovals s = map snd (pendingApprovals s)"

subsection \<open>Execution and cleanup\<close>

text \<open>
  \<open>executeApprovedUserOp\<close>.  The outcome of the two wallet-manager calls
  (\<open>submitUserOp\<close>, \<open>waitForUserOp\<close>) is the argument \<open>outcome\<close>: the
  transaction hash and the success flag, or \<open>None\<close> when either call throws, in
  which case the error is rethrown.
\<close>

datatype ExecutionError = ExecutionThrew

definition executeApprovedUserOp ::
  "(string \<times> bool) option \<Rightarrow> string \<Rightarrow> PackedUserOperation \<Rightarrow> 'd ApprovalFlow
     \<Rightarrow> (ExecutionError + string \<times> bool) \<times> 'd ApprovalFlow" where
  "executeApprovedUserOp outcome pid signedUserOp s =
     (let s1 = logAudit EXECUTION_STARTED pid s
      in case outcome of
           Some (txHash, success) \<Rightarrow>
             (Inr (txHash, success),
              logAudit (if success then EXECUTION_SUCCESS else EXECUTION_FAILED) pid
                (updateProposalStatus pid (if success then EXECUTED else FAILED) s1))
         | None \<Rightarrow>
             (Inl ExecutionThrew,
              logAudit EXECUTION_FAILED pid (updateProposalStatus pid FAILED s1)))"

text \<open>
  \<open>cleanupExpired\<close> of the approval flow (the session key manager has a method of
  the same name).  The loop visits every entry of the map once; deleting the entry
  being visited does not disturb the iteration.
\<close>

definition cleanupExpired_flow :: "int \<Rightarrow> 'd ApprovalFlow \<Rightarrow> 'd ApprovalFlow" where
  "cleanupExpired_flow now s =
     foldl (\<lambda>s' (pid, request).
              if now > req_expiresAt request
              then logAudit APPROVAL_EXPIRED pid
                     ((updateProposalStatus pid EXPIRED s')
                        \<lparr>pendingApprovals := AList.delete pid (pendingApprovals s')\<rparr>)
              else s')
       s (pendingApprovals s)"

subsection \<open>Sequences of calls\<close>

text \<open>
  One call of a public method that can change the state of the flow, with its
  arguments and the values it reads from outside (the instant, the fresh id, the
  outcome of the execution); \<open>applyOp\<close> is the state it leaves, whether it returns
  or throws, and \<open>runOps\<close> runs a sequence of calls in order.  The audit callback
  of the configuration is taken not to call back into the flow.
\<close>

datatype Op =
  OpCreateProposal string int Protocol Protocol int rat rat int
  | OpUpdateProposalStatus string ProposalStatus
  | OpRequestApproval int RebalanceProposal string PackedUserOperation
  | OpProcessApproval int ApprovalResponse
  | OpRejectProposal string
  | OpExecuteApprovedUserOp "(string \<times> bool) option" string PackedUserOperation
  | OpCleanupExpired int

fun applyOp :: "WalletManager \<Rightarrow> 'd ApprovalFlowConfig \<Rightarrow> Op \<Rightarrow> 'd ApprovalFlow \<Rightarrow> 'd ApprovalFlow" where
  "applyOp wm cfg (OpCreateProposal newId now fromP toP amt fromA toA gas) s =
     snd (createProposal cfg newId now fromP toP amt fromA toA gas s)"
| "applyOp wm cfg (OpUpdateProposalStatus pid st) s = updateProposalStatus pid st s"
| "applyOp wm cfg (OpRequestApproval now proposal vault uop) s =
     snd (requestApproval wm cfg now proposal vault uop s)"
| "applyOp wm cfg (OpProcessApproval now response) s = snd (processApproval wm now response s)"
| "applyOp wm cfg (OpRejectProposal pid) s = rejectProposal pid s"
| "applyOp wm cfg (OpExecuteApprovedUserOp outcome pid signedUserOp) s =
     snd (executeApprovedUserOp outcome pid signedUserOp s)"
| "applyOp wm cfg (OpCleanupExpired now) s = cleanupExpired_flow now s"

definition runOps ::
  "WalletManager \<Rightarrow> 'd ApprovalFlowConfig \<Rightarrow> Op list \<Rightarrow> 'd ApprovalFlow \<Rightarrow> 'd ApprovalFlow" where
  "runOps wm cfg ops s = foldl (\<lambda>s' op. applyOp wm cfg op s') s ops"

text \<open>Whether a call is a \<open>requestApproval\<close> for a proposal with the given id.\<close>

fun requestsFor :: "string \<Rightarrow> Op \<Rightarrow> bool" where
  "requestsFor pid (OpRequestApproval now proposal vault uop) = (rp_id proposal = pid)"
| "requestsFor pid _ = False"


subsection \<open>Well-keyed states, terminal transitions, and a sample run\<close>

text \<open>
  \<open>requestApproval\<close> stores every request under its own \<open>proposalId\<close>; this is
  the invariant that lets "no request for that proposal id is listed" be read off the
  keys.
\<close>

definition wellKeyed :: "'d ApprovalFlow \<Rightarrow> bool" where
  "wellKeyed s = list_all (\<lambda>(k, r). proposalId r = k) (pendingApprovals s)"

text \<open>The state every terminal branch leaves behind.\<close>

definition resolved :: "AuditEventType \<Rightarrow> ProposalStatus \<Rightarrow> string \<Rightarrow> 'd ApprovalFlow \<Rightarrow> 'd ApprovalFlow" where
  "resolved ev st pid s =
     logAudit ev pid ((updateProposalStatus pid st s)
        \<lparr>pendingApprovals := AList.delete pid (pendingApprovals s)\<rparr>)"

text \<open>
  A sample run, as in the test suite: a flow with a 1 ms timeout, a proposal created at
  instant 1000 (so it expires at 1001) and routed to the approval lane.
\<close>

definition ex_wm :: WalletManager where
  "ex_wm = \<lparr>getUserOpHash = (\<lambda>u. ''0xabc123''),
            attachPasskeySignature = (\<lambda>u a. u\<lparr>signature := ''0xsigned''\<rparr>)\<rparr>"

definition ex_cfg :: "unit ApprovalFlowConfig" where
  "ex_cfg = \<lparr>approvalUiBaseUrl = ''https://approve.test'', approvalTimeout = Some 1,
             formatDisplayData = (\<lambda>p. ()), formatNotificationMessage = (\<lambda>d e n. [])\<rparr>"

definition ex_userOp :: PackedUserOperation where
  "ex_userOp = \<lparr>sender = ''0x1111'', nonce = 0, initCode = ''0x'', callData = ''0x'',
     accountGasLimits = ''0x'', preVerificationGas = 0, gasFees = ''0x'',
     paymasterAndData = ''0x'', signature = ''0x''\<rparr>"

definition ex_auth :: WebAuthnAuth where
  "ex_auth = \<lparr>authenticatorData = ''0xaabbcc'', clientDataJSON = ''{}'', challengeIndex = 0,
     typeIndex = 0, sig_r = 1, sig_s = 2\<rparr>"

definition ex_created :: "RebalanceProposal \<times> unit ApprovalFlow" where
  "ex_created = createProposal ex_cfg ''p1'' 1000 AAVE_V3 COMPOUND_V3 100 (1/32) (1/16) 0 newApprovalFlow"

definition ex_requested :: "unit ApprovalRequest \<times> unit ApprovalFlow" where
  "ex_requested =
     (let ((request, notification), s) =
            requestApproval ex_wm ex_cfg 1000 (fst ex_created) ''0x1111'' ex_userOp (snd ex_created)
      in (request, s))"

definition ex_response :: "bool \<Rightarrow> WebAuthnAuth option \<Rightarrow> ApprovalResponse" where
  "ex_response ok auth = \<lparr>resp_proposalId = ''p1'', approved = ok, resp_signature = None,
     webAuthnAuth = auth, resp_timestamp = 1000\<rparr>"

text \<open>
  What can follow a rejection: the state after the sample request was rejected at
  instant 1001, a sequence of other calls (a cleanup, a second proposal created,
  requested and executed, a status update of the first), and the tracked proposal
  handed to \<open>requestApproval\<close> once more.
\<close>

definition ex_rejected :: "unit ApprovalFlow" where
  "ex_rejected = snd (processApproval ex_wm 1001 (ex_response False None) (snd ex_requested))"

definition ex_second :: RebalanceProposal where
  "ex_second = fst (createProposal ex_cfg ''p2'' 1500 AAVE_V3 MOONWELL 50 (1/32) (1/16) 0 ex_rejected)"

definition ex_ops :: "Op list" where
  "ex_ops =
     [OpCleanupExpired 1400,
      OpCreateProposal ''p2'' 1500 AAVE_V3 MOONWELL 50 (1/32) (1/16) 0,
      OpRequestApproval 1500 ex_second ''0x1111'' ex_userOp,
      OpUpdateProposalStatus ''p1'' PENDING_APPROVAL,
      OpProcessApproval 1501 \<lparr>resp_proposalId = ''p2'', approved = True, resp_signature = None,
                               webAuthnAuth = Some ex_auth, resp_timestamp = 1501\<rparr>,
      OpExecuteApprovedUserOp (Some (''0xtx'', True)) ''p2'' ex_userOp,
      OpRejectProposal ''p1'']"

definition ex_rerequested :: "unit ApprovalFlow" where
  "ex_rerequested =
     snd (requestApproval ex_wm ex_cfg 1001 ((fst ex_created)\<lparr>status := REJECTED\<rparr>) ''0x1111''
            ex_userOp ex_rejected)"

section \<open>Rate history (rate-history.ts)\<close>

datatype ProtocolId = aave | compound | morpho | moonwell

datatype RateSource = src_onchain | src_defillama

datatype Severity = low | medium | high

record RateEntry =
  protocolId :: ProtocolId
  apy :: rat
  timestamp :: rat
  source :: RateSource

record AnomalyDetails =
  currentRate :: rat
  previousRate :: rat
  changePercent :: rat
  timeWindowMs :: rat

record RateAnomaly =
  suspicious :: bool
  reason :: "string option"
  severity :: "Severity option"
  details :: "AnomalyDetails option"

record TWAPResult =
  twap :: rat
  sampleCount :: nat
  oldestSample :: rat
  newestSample :: rat

definition DEFAULT_HISTORY_WINDOW_MS :: rat where
  "DEFAULT_HISTORY_WINDOW_MS = 24 * 60 * 60 * 1000"

definition MAX_ENTRIES_PER_PROTOCOL :: nat where
  "MAX_ENTRIES_PER_PROTOCOL = 1000"

definition RATE_VELOCITY_THRESHOLD :: rat where
  "RATE_VELOCITY_THRESHOLD = 1 / 2"

definition RATE_VELOCITY_WINDOW_MS :: rat where
  "RATE_VELOCITY_WINDOW_MS = 60 * 60 * 1000"

text \<open>
  The store: one list of entries per protocol, in the order they were recorded, and the
  retention window fixed by the constructor.
\<close>

record RateHistory =
  history :: "ProtocolId \<rightharpoonup> RateEntry list"
  windowMs :: rat

definition newRateHistory :: "rat option \<Rightarrow> RateHistory" where
  "newRateHistory w =
     \<lparr>history = Map.empty,
      windowMs = (case w of None \<Rightarrow> DEFAULT_HISTORY_WINDOW_MS | Some x \<Rightarrow> x)\<rparr>"

text \<open>\<open>this.history.get(id) ?? []\<close>\<close>

definition entriesOf :: "RateHistory \<Rightarrow> ProtocolId \<Rightarrow> RateEntry list" where
  "entriesOf h pid = (case history h pid of None \<Rightarrow> [] | Some es \<Rightarrow> es)"

text \<open>\<open>xs.slice(-n)\<close> for a positive \<open>n\<close>: the last \<open>n\<close> elements.\<close>

definition slice_last :: "nat \<Rightarrow> 'a list \<Rightarrow> 'a list" where
  "slice_last n xs = drop (length xs - n) xs"

text \<open>\<open>record\<close> (the name is an Isabelle keyword, hence \<open>recordEntry\<close>).\<close>

definition recordEntry :: "RateHistory \<Rightarrow> RateEntry \<Rightarrow> rat \<Rightarrow> RateHistory" where
  "recordEntry h entry now =
     (let entries = entriesOf h (protocolId entry) @ [entry];
          cutoff = fsub now (windowMs h);
          pruned = filter (\<lambda>e. timestamp e \<ge> cutoff) entries;
          limited = (if length pruned > MAX_ENTRIES_PER_PROTOCOL
                     then slice_last MAX_ENTRIES_PER_PROTOCOL pruned else pruned)
      in h\<lparr>history := (history h)(protocolId entry \<mapsto> limited)\<rparr>)"

definition getEntries :: "RateHistory \<Rightarrow> ProtocolId \<Rightarrow> rat option \<Rightarrow> rat \<Rightarrow> RateEntry list" where
  "getEntries h pid w now =
     (let cutoff = fsub now (case w of None \<Rightarrow> windowMs h | Some x \<Rightarrow> x)
      in filter (\<lambda>e. timestamp e \<ge> cutoff) (entriesOf h pid))"

text \<open>
  The loop of \<open>getTWAP\<close> over adjacent pairs of the sorted entries, carrying
  \<open>(weightedSum, totalWeight)\<close>.
\<close>

fun twapLoop :: "RateEntry list \<Rightarrow> rat \<times> rat \<Rightarrow> rat \<times> rat" where
  "twapLoop (current # next # rest) (weightedSum, totalWeight) =
     (let weight = fsub (timestamp next) (timestamp current)
      in twapLoop (next # rest)
           (fadd weightedSum (fmul (apy current) weight), fadd totalWeight weight))"
| "twapLoop [e] acc = acc"
| "twapLoop [] acc = acc"

text \<open>
  \<open>getTWAP\<close>.  \<open>[...entries].sort((a, b) => a.timestamp - b.timestamp)\<close> is a
  stable sort by timestamp, as \<open>sort_key\<close> is.
\<close>

definition getTWAP :: "RateHistory \<Rightarrow> ProtocolId \<Rightarrow> rat option \<Rightarrow> rat \<Rightarrow> TWAPResult option" where
  "getTWAP h pid windowHours now =
     (let windowMs' =
            fmul (fmul (fmul (case windowHours of None \<Rightarrow> 1 | Some w \<Rightarrow> w) 60) 60) 1000;
          entries = getEntries h pid (Some windowMs') now
      in if length entries = 0 then None
         else if length entries = 1 then
           Some \<lparr>twap = apy (hd entries), sampleCount = 1,
                 oldestSample = timestamp (hd entries), newestSample = timestamp (hd entries)\<rparr>
         else
           (let sorted = sort_key timestamp entries;
                (weightedSum, totalWeight) = twapLoop sorted (0, 0);
                lastEntry = last sorted;
                timeSinceLast = min (fsub now (timestamp lastEntry)) (60 * 60 * 1000);
                weightedSum' = fadd weightedSum (fmul (apy lastEntry) timeSinceLast);
                totalWeight' = fadd totalWeight timeSinceLast;
                twap' = (if totalWeight' > 0 then fdiv weightedSum' totalWeight'
                         else apy lastEntry)
            in Some \<lparr>twap = twap', sampleCount = length sorted,
                      oldestSample = timestamp (hd sorted), newestSample = timestamp lastEntry\<rparr>))"

text \<open>
  \<open>detectAnomalies\<close>.  Its two checks return early from the function; each is a
  function to \<open>option\<close> here, \<open>Some\<close> being the early return.  The literals
  \<open>0.5\<close> and \<open>1.0\<close> are binary64 values; \<open>0.2\<close> denotes the binary64 value
  nearest to one fifth, \<open>round64 (1 / 5)\<close>.
\<close>

definition velocityCheck :: "rat \<Rightarrow> rat \<Rightarrow> RateAnomaly option" where
  "velocityCheck latest oldest =
     (if oldest > 0 then
        (let changePercent' = fdiv \<bar>fsub latest oldest\<bar> oldest
         in if changePercent' > RATE_VELOCITY_THRESHOLD then
              Some \<lparr>suspicious = True, reason = Some ''high_rate_velocity'',
                    severity = Some (if changePercent' > 1 then high else medium),
                    details = Some \<lparr>currentRate = latest, previousRate = oldest,
                                     changePercent = changePercent',
                                     timeWindowMs = RATE_VELOCITY_WINDOW_MS\<rparr>\<rparr>
            else None)
      else None)"

definition deviationCheck :: "TWAPResult option \<Rightarrow> rat \<Rightarrow> RateAnomaly option" where
  "deviationCheck twapResult latest =
     (case twapResult of
        None \<Rightarrow> None
      | Some t \<Rightarrow>
          if twap t > 0 then
            (let deviation = fdiv \<bar>fsub latest (twap t)\<bar> (twap t)
             in if deviation > round64 (1 / 5) then
                  Some \<lparr>suspicious = True, reason = Some ''twap_deviation'',
                        severity = Some (if deviation > 1 / 2 then high else medium),
                        details = Some \<lparr>currentRate = latest, previousRate = twap t,
                                         changePercent = deviation,
                                         timeWindowMs = 60 * 60 * 1000\<rparr>\<rparr>
                else None)
          else None)"

definition detectAnomalies :: "RateHistory \<Rightarrow> ProtocolId \<Rightarrow> rat option \<Rightarrow> rat \<Rightarrow> RateAnomaly" where
  "detectAnomalies h pid currentRate' now =
     (let entries = getEntries h pid (Some RATE_VELOCITY_WINDOW_MS) now
      in if length entries < 2 then
           \<lparr>suspicious = False, reason = Some ''insufficient_data'', severity = Some low,
            details = None\<rparr>
         else
           (let sorted = sort_key timestamp entries;
                latest = (case currentRate' of None \<Rightarrow> apy (last sorted) | Some r \<Rightarrow> r);
                oldest = apy (hd sorted)
            in case velocityCheck latest oldest of
                 Some anomaly \<Rightarrow> anomaly
               | None \<Rightarrow>
                   (case deviationCheck (getTWAP h pid (Some 1) now) latest of
                      Some anomaly \<Rightarrow> anomaly
                    | None \<Rightarrow> \<lparr>suspicious = False, reason = None, severity = None,
                                details = None\<rparr>)))"

definition getLatestRate :: "RateHistory \<Rightarrow> ProtocolId \<Rightarrow> RateEntry option" where
  "getLatestRate h pid =
     (case history h pid of
        None \<Rightarrow> None
      | Some entries \<Rightarrow> if length entries = 0 then None else Some (last entries))"

definition isStale :: "RateHistory \<Rightarrow> ProtocolId \<Rightarrow> rat \<Rightarrow> rat \<Rightarrow> bool" where
  "isStale h pid maxAgeMs now =
     (case getLatestRate h pid of None \<Rightarrow> True | Some latest \<Rightarrow> fsub now (timestamp latest) > maxAgeMs)"

subsection \<open>Predicates and sample stores for the rate history\<close>

text \<open>The hard cap as an invariant of the whole store.\<close>

definition allProtocolIds :: "ProtocolId list" where
  "allProtocolIds = [aave, compound, morpho, moonwell]"

definition capped :: "RateHistory \<Rightarrow> bool" where
  "capped h = list_all (\<lambda>pid. length (entriesOf h pid) \<le> MAX_ENTRIES_PER_PROTOCOL) allProtocolIds"

text \<open>
  The time-weighting in the words of the specification: every adjacent pair of the
  sorted samples contributes the earlier sample's rate times the gap between their
  timestamps; the most recent sample contributes its rate times
  \<open>min (now - its timestamp, 1 hour)\<close>.  The sums are accumulated from the oldest
  pair on, in the arithmetic of JavaScript numbers.
\<close>

definition adjacentPairs :: "'a list \<Rightarrow> ('a \<times> 'a) list" where
  "adjacentPairs xs = zip xs (tl xs)"

definition specLastWeight :: "RateEntry list \<Rightarrow> rat \<Rightarrow> rat" where
  "specLastWeight ss now = min (fsub now (timestamp (last ss))) (60 * 60 * 1000)"

definition specWeightedSum :: "RateEntry list \<Rightarrow> rat \<Rightarrow> rat" where
  "specWeightedSum ss now =
     fadd (foldl (\<lambda>acc (e, e'). fadd acc (fmul (apy e) (fsub (timestamp e') (timestamp e))))
             0 (adjacentPairs ss))
          (fmul (apy (last ss)) (specLastWeight ss now))"

definition specTotalWeight :: "RateEntry list \<Rightarrow> rat \<Rightarrow> rat" where
  "specTotalWeight ss now =
     fadd (foldl (\<lambda>acc (e, e'). fadd acc (fsub (timestamp e') (timestamp e)))
             0 (adjacentPairs ss))
          (specLastWeight ss now)"

text \<open>The window of \<open>getTWAP\<close> in milliseconds, \<open>windowHours * 60 * 60 * 1000\<close>.\<close>

definition hoursToMs :: "rat \<Rightarrow> rat" where
  "hoursToMs w = fmul (fmul (fmul w 60) 60) 1000"

text \<open>
  Sample stores; every rate is a binary64 value.  \<open>ex_stale\<close>: a compound sample
  recorded at instant 0 into a store with a 1000 ms window, then an aave sample
  recorded at instant 5000.  \<open>ex_full\<close>: a store whose aave list is at the cap.
  \<open>ex_unordered\<close>: a store at the cap whose first recorded sample carries a later
  timestamp than the 999 recorded after it.  \<open>ex_tie\<close>: two samples recorded at the
  same instant.  \<open>ex_hist\<close>: two aave samples recorded one after the other into a
  fresh store.
\<close>

definition ex_entry :: "ProtocolId \<Rightarrow> rat \<Rightarrow> rat \<Rightarrow> RateEntry" where
  "ex_entry pid r t = \<lparr>protocolId = pid, apy = r, timestamp = t, source = src_onchain\<rparr>"

definition ex_stale :: RateHistory where
  "ex_stale = recordEntry (recordEntry (newRateHistory (Some 1000)) (ex_entry compound (1/32) 0) 0)
                (ex_entry aave (1/16) 5000) 5000"

definition ex_full :: RateHistory where
  "ex_full = \<lparr>history = [aave \<mapsto> replicate 1000 (ex_entry aave (1/32) 10)], windowMs = 1000\<rparr>"

definition ex_unordered :: RateHistory where
  "ex_unordered =
     \<lparr>history = [aave \<mapsto> ex_entry aave (1/32) 10 # replicate 999 (ex_entry aave (1/32) 5)],
      windowMs = 1000\<rparr>"

definition ex_tie :: RateHistory where
  "ex_tie = recordEntry (recordEntry (newRateHistory None) (ex_entry aave (1/16) 1000) 1000)
              (ex_entry aave (1/32) 1000) 1000"

definition ex_two :: RateHistory where
  "ex_two = recordEntry (recordEntry (newRateHistory None) (ex_entry aave (1/16) 7000) 7000)
              (ex_entry aave (1/32) 9000) 9000"

definition ex_one :: RateHistory where
  "ex_one = recordEntry (newRateHistory None) (ex_entry aave (1/16) 9000) 9000"

definition ex_zero :: RateHistory where
  "ex_zero = recordEntry (recordEntry (newRateHistory None) (ex_entry aave 0 70000) 70000)
               (ex_entry aave (1/16) 100000) 100000"

definition ex_hist :: "rat \<Rightarrow> rat \<Rightarrow> rat \<Rightarrow> rat \<Rightarrow> RateHistory" where
  "ex_hist r1 t1 r2 t2 =
     recordEntry (recordEntry (newRateHistory None) (ex_entry aave r1 t1) t1) (ex_entry aave r2 t2) t2"

section \<open>Yield monitor (yield-monitor.ts, protocols/index.ts, config.ts)\<close>

record YieldProtocol =
  yp_id :: ProtocolId
  yp_name :: string
  yp_address :: string

text \<open>
  What the reads of one protocol return during one cycle; \<open>None\<close> is a rejected
  promise.  \<open>getAPY\<close> and \<open>getBalance\<close> are the two reads of the first,
  concurrent attempt (\<open>Promise.all\<close>: fulfilled when both are);
  \<open>getBalanceRetry\<close> is the second \<open>getBalance\<close> call, made on the DeFiLlama
  path.
\<close>

record ProtocolReads =
  getAPY :: "rat option"
  getBalance :: "int option"
  getBalanceRetry :: "int option"

record ProtocolSnapshot =
  snap_protocolId :: ProtocolId
  protocolName :: string
  address :: string
  apyPercent :: rat
  balance :: int
  snap_timestamp :: rat

datatype DataSource = ds_onchain | ds_defillama | ds_mixed

record YieldMonitorConfig =
  useTWAP :: bool
  twapWindowHours :: rat
  enableAnomalyDetection :: bool
  useDeFiLlamaFallback :: bool
  rateStalenesMs :: rat


definition RATE_STALENESS_MS :: rat where
  "RATE_STALENESS_MS = 2 * 60 * 60 * 1000"

definition DEFAULT_CONFIG :: YieldMonitorConfig where
  "DEFAULT_CONFIG =
     \<lparr>useTWAP = True, twapWindowHours = 1, enableAnomalyDetection = True,
      useDeFiLlamaFallback = True, rateStalenesMs = RATE_STALENESS_MS\<rparr>"

record ProtectedYieldComparison =
  snapshots :: "ProtocolSnapshot list"
  bestProtocol :: ProtocolSnapshot
  currentProtocol :: "ProtocolSnapshot option"
  apyDifferentialBps :: int
  shouldRebalance :: bool
  cmp_timestamp :: rat
  twapUsed :: bool
  anomalies :: "(ProtocolId \<times> RateAnomaly) list"
  rejectReason :: "string option"
  dataSource :: DataSource

record YieldMonitor =
  rateHistory :: RateHistory
  lastComparison :: "ProtectedYieldComparison option"

subsection \<open>getSnapshots\<close>

text \<open>
  One iteration of the loop "Process results, using fallback where needed", on the
  state \<open>(results, onchainCount, defillamaCount, rate history)\<close>.
  \<open>defillamaRates\<close> is \<open>None\<close> when the fallback is disabled or its fetch threw.
\<close>

fun snapshotStep ::
  "(ProtocolId \<rightharpoonup> rat) option \<Rightarrow> rat
     \<Rightarrow> ProtocolSnapshot list \<times> nat \<times> nat \<times> RateHistory
     \<Rightarrow> YieldProtocol \<times> ProtocolReads
     \<Rightarrow> ProtocolSnapshot list \<times> nat \<times> nat \<times> RateHistory" where
  "snapshotStep defillamaRates now (results, onchainCount, defillamaCount, h) (protocol, reads) =
     (case (getAPY reads, getBalance reads) of
        (Some apyPercent', Some balance') \<Rightarrow>
          (results @ [\<lparr>snap_protocolId = yp_id protocol, protocolName = yp_name protocol,
                        address = yp_address protocol, apyPercent = apyPercent',
                        balance = balance', snap_timestamp = now\<rparr>],
           onchainCount + 1, defillamaCount,
           recordEntry h \<lparr>protocolId = yp_id protocol, apy = apyPercent', timestamp = now,
                          source = src_onchain\<rparr> now)
      | _ \<Rightarrow>
          (case (case defillamaRates of None \<Rightarrow> None | Some rates \<Rightarrow> rates (yp_id protocol)) of
             Some defillamaApy \<Rightarrow>
               (let balance' = (case getBalanceRetry reads of None \<Rightarrow> 0 | Some b \<Rightarrow> b)
                in (results @ [\<lparr>snap_protocolId = yp_id protocol, protocolName = yp_name protocol,
                                 address = yp_address protocol, apyPercent = defillamaApy,
                                 balance = balance', snap_timestamp = now\<rparr>],
                    onchainCount, defillamaCount + 1,
                    recordEntry h \<lparr>protocolId = yp_id protocol, apy = defillamaApy,
                                   timestamp = now, source = src_defillama\<rparr> now))
           | None \<Rightarrow>
               (let lastRate = getLatestRate h (yp_id protocol)
                in (results @ [\<lparr>snap_protocolId = yp_id protocol, protocolName = yp_name protocol,
                                 address = yp_address protocol,
                                 apyPercent = (case lastRate of None \<Rightarrow> 0 | Some e \<Rightarrow> apy e),
                                 balance = 0, snap_timestamp = now\<rparr>],
                    onchainCount, defillamaCount, h))))"

text \<open>
  \<open>getSnapshots\<close>.  \<open>ps\<close> pairs each protocol of \<open>this.protocols\<close> with the
  outcome of its reads; \<open>fetch\<close> is the outcome of \<open>fetchDeFiLlamaRates\<close>
  (\<open>None\<close> when it throws).
\<close>

definition getSnapshots ::
  "YieldMonitorConfig \<Rightarrow> (ProtocolId \<rightharpoonup> rat) option \<Rightarrow> (YieldProtocol \<times> ProtocolReads) list
     \<Rightarrow> RateHistory \<Rightarrow> rat \<Rightarrow> ProtocolSnapshot list \<times> DataSource \<times> RateHistory" where
  "getSnapshots cfg fetch ps h now =
     (let defillamaRates = (if useDeFiLlamaFallback cfg then fetch else None);
          (results, onchainCount, defillamaCount, h') =
             foldl (snapshotStep defillamaRates now) ([], 0, 0, h) ps;
          dataSource' = (if defillamaCount = 0 then ds_onchain
                         else if onchainCount = 0 then ds_defillama
                         else ds_mixed)
      in (results, dataSource', h'))"

subsection \<open>compareYields\<close>





subsection \<open>Auxiliary notions and a sample cycle for the monitor\<close>


text \<open>
  By which of the three branches of the loop in \<open>getSnapshots\<close> a protocol's
  snapshot is produced.
\<close>

datatype Resolution = ViaOnchain | ViaDefillama | ViaLastKnown

definition resolutionOf ::
  "(ProtocolId \<rightharpoonup> rat) option \<Rightarrow> YieldProtocol \<times> ProtocolReads \<Rightarrow> Resolution" where
  "resolutionOf defillamaRates pr =
     (case (getAPY (snd pr), getBalance (snd pr)) of
        (Some a, Some b) \<Rightarrow> ViaOnchain
      | _ \<Rightarrow>
          (case (case defillamaRates of None \<Rightarrow> None | Some rates \<Rightarrow> rates (yp_id (fst pr))) of
             Some a \<Rightarrow> ViaDefillama
           | None \<Rightarrow> ViaLastKnown))"

text \<open>
  A sample cycle over two protocols whose on-chain reads succeed, a monitor whose
  history holds the given compound samples, and projections of a comparison result.
\<close>

definition ex_aave :: YieldProtocol where
  "ex_aave = \<lparr>yp_id = aave, yp_name = ''Aave V3'', yp_address = ''0xA238''\<rparr>"

definition ex_compound :: YieldProtocol where
  "ex_compound = \<lparr>yp_id = compound, yp_name = ''Compound V3'', yp_address = ''0xb125''\<rparr>"



definition ex_monitor :: "RateEntry list \<Rightarrow> YieldMonitor" where
  "ex_monitor es = \<lparr>rateHistory = \<lparr>history = [compound \<mapsto> es], windowMs = DEFAULT_HISTORY_WINDOW_MS\<rparr>,
                    lastComparison = None\<rparr>"




definition ex_failed :: ProtocolReads where
  "ex_failed = \<lparr>getAPY = None, getBalance = None, getBalanceRetry = None\<rparr>"

section \<open>Session key custody (session-key-manager.ts)\<close>

record KeyConfig =
  validUntil :: rat
  spendLimit :: int

record EncryptedSessionKey =
  esk_address :: string
  encryptedPrivateKey :: string
  iv :: string
  authTag :: string
  esk_config :: KeyConfig

record DecryptedSessionKey =
  dsk_address :: string
  privateKey :: string
  dsk_config :: KeyConfig

text \<open>
  The three ways \<open>decryptForSigning\<close> throws: "No session key found for address
  ...", "Session key ... has expired", and the exception of the AES-GCM decipher when
  the authentication tag does not match.
\<close>

datatype SessionKeyError = NoSessionKey | SessionKeyExpired | DecryptionFailed

text \<open>
  The manager: the master key and the \<open>Map\<close> of encrypted keys (an association
  list in insertion order).  AES-256-GCM decryption (\<open>node:crypto\<close>) is a parameter
  \<open>dec\<close> of the operations: \<open>dec key ciphertext iv tag\<close> is the plaintext, or
  \<open>None\<close> where \<open>decipher.final()\<close> throws.
\<close>

record SecureSessionKeyManager =
  encryptionKey :: string
  encryptedKeys :: "(string \<times> EncryptedSessionKey) list"

definition hexLower :: "nat \<Rightarrow> char" where
  "hexLower n = ''0123456789abcdef'' ! (n mod 16)"

text \<open>viem's \<open>bytesToHex\<close>: \<open>0x\<close> and two lower-case digits per byte.\<close>

definition bytesToHex :: "string \<Rightarrow> string" where
  "bytesToHex bytes =
     ''0x'' @ concat (map (\<lambda>b. [hexLower (of_char b div 16), hexLower (of_char b mod 16)]) bytes)"

definition loadEncryptedKey ::
  "EncryptedSessionKey \<Rightarrow> SecureSessionKeyManager \<Rightarrow> SecureSessionKeyManager" where
  "loadEncryptedKey k m = m\<lparr>encryptedKeys := AList.update (esk_address k) k (encryptedKeys m)\<rparr>"

text \<open>
  \<open>decryptForSigning\<close>.  Beside the result it returns the ciphertexts that were
  handed to the decipher, so that "nothing was decrypted" is the empty list.
  \<open>now\<close> is \<open>Date.now()\<close>, in milliseconds.
\<close>

definition decryptForSigning ::
  "(string \<Rightarrow> string \<Rightarrow> string \<Rightarrow> string \<Rightarrow> string option)
     \<Rightarrow> SecureSessionKeyManager \<Rightarrow> string \<Rightarrow> rat
     \<Rightarrow> (SessionKeyError + DecryptedSessionKey) \<times> string list" where
  "decryptForSigning dec m addr now =
     (case map_of (encryptedKeys m) addr of
        None \<Rightarrow> (Inl NoSessionKey, [])
      | Some encrypted \<Rightarrow>
          if fdiv now 1000 > validUntil (esk_config encrypted) then (Inl SessionKeyExpired, [])
          else
            (case dec (encryptionKey m) (encryptedPrivateKey encrypted) (iv encrypted)
                    (authTag encrypted) of
               None \<Rightarrow> (Inl DecryptionFailed, [encryptedPrivateKey encrypted])
             | Some privateKeyBytes \<Rightarrow>
                 (Inr \<lparr>dsk_address = esk_address encrypted,
                       privateKey = bytesToHex privateKeyBytes,
                       dsk_config = esk_config encrypted\<rparr>,
                  [encryptedPrivateKey encrypted])))"

definition revokeSessionKey ::
  "string \<Rightarrow> SecureSessionKeyManager \<Rightarrow> bool \<times> SecureSessionKeyManager" where
  "revokeSessionKey addr m =
     (map_of (encryptedKeys m) addr \<noteq> None,
      m\<lparr>encryptedKeys := AList.delete addr (encryptedKeys m)\<rparr>)"

definition getValidSessionKeys :: "SecureSessionKeyManager \<Rightarrow> rat \<Rightarrow> EncryptedSessionKey list" where
  "getValidSessionKeys m now =
     (let now' = fdiv now 1000
      in filter (\<lambda>k. validUntil (esk_config k) > now') (map snd (encryptedKeys m)))"

definition cleanupExpired :: "SecureSessionKeyManager \<Rightarrow> rat \<Rightarrow> nat \<times> SecureSessionKeyManager" where
  "cleanupExpired m now =
     (let now' = fdiv now 1000
      in (length (filter (\<lambda>(a, k). validUntil (esk_config k) \<le> now') (encryptedKeys m)),
          m\<lparr>encryptedKeys :=
               filter (\<lambda>(a, k). \<not> validUntil (esk_config k) \<le> now') (encryptedKeys m)\<rparr>))"

text \<open>
  The validity test of the wallet contract for a session key
  (\<open>AgentVault._validateSessionKeySignature\<close>:
  \<open>if (block.timestamp >= sk.validUntil) return 1\<close>), in seconds.
\<close>

definition contractRejectsSessionKey :: "nat \<Rightarrow> nat \<Rightarrow> bool" where
  "contractRejectsSessionKey blockTimestamp validUntil' = (blockTimestamp \<ge> validUntil')"

subsection \<open>A sample manager\<close>

text \<open>
  One key, valid until second 1700000000, under a toy decipher that accepts exactly
  one (key, ciphertext, nonce, tag) quadruple.
\<close>

definition ex_dec :: "string \<Rightarrow> string \<Rightarrow> string \<Rightarrow> string \<Rightarrow> string option" where
  "ex_dec key ct iv' tag =
     (if key = ''master'' \<and> ct = ''c2VjcmV0'' \<and> iv' = ''bm9uY2U='' \<and> tag = ''dGFn''
      then Some ''AB'' else None)"

definition ex_key :: EncryptedSessionKey where
  "ex_key = \<lparr>esk_address = ''0xabc'', encryptedPrivateKey = ''c2VjcmV0'', iv = ''bm9uY2U='',
             authTag = ''dGFn'',
             esk_config = \<lparr>validUntil = 1700000000, spendLimit = 100000000\<rparr>\<rparr>"

definition ex_manager :: SecureSessionKeyManager where
  "ex_manager = loadEncryptedKey ex_key \<lparr>encryptionKey = ''master'', encryptedKeys = []\<rparr>"

section \<open>Properties of the approval flow\<close>

lemmas ex_defs = ex_wm_def ex_cfg_def ex_userOp_def ex_auth_def ex_created_def ex_requested_def
  ex_response_def createProposal_def requestApproval_def newApprovalFlow_def logAudit_def
  generateApprovalUrl_def wellKeyed_def getProposal_def Let_def

lemma map_of_delete_same: "map_of (AList.delete k al) k = None"
  by (simp add: delete_conv')

lemma delete_wellKeyed_no_pid:
  "list_all (\<lambda>(k, r). proposalId r = k) al \<Longrightarrow>
   \<forall>r \<in> set (map snd (AList.delete pid al)). proposalId r \<noteq> pid"
  by (induction al) (auto simp: AList.delete_eq)

lemma proposals_updateProposalStatus:
  "proposals (updateProposalStatus pid st s) =
     (case proposals s pid of None \<Rightarrow> proposals s
      | Some p \<Rightarrow> (proposals s)(pid \<mapsto> p\<lparr>status := st\<rparr>))"
  by (simp add: updateProposalStatus_def split: option.splits)

lemma processApproval_expired:
  assumes "map_of (pendingApprovals s) (resp_proposalId response) = Some req"
      and "now > req_expiresAt req"
  shows "processApproval wm now response s =
           (Inl Expired,
            logAudit APPROVAL_EXPIRED (resp_proposalId response)
              ((updateProposalStatus (resp_proposalId response) EXPIRED s)
                \<lparr>pendingApprovals := AList.delete (resp_proposalId response) (pendingApprovals s)\<rparr>))"
  using assms by (simp add: processApproval_def Let_def)

lemma processApproval_rejected:
  assumes "map_of (pendingApprovals s) (resp_proposalId response) = Some req"
      and "\<not> now > req_expiresAt req" and "\<not> approved response"
  shows "processApproval wm now response s =
           (Inl Rejected,
            logAudit APPROVAL_REJECTED (resp_proposalId response)
              ((updateProposalStatus (resp_proposalId response) REJECTED s)
                \<lparr>pendingApprovals := AList.delete (resp_proposalId response) (pendingApprovals s)\<rparr>))"
  using assms by (simp add: processApproval_def Let_def)

lemma processApproval_missing:
  assumes "map_of (pendingApprovals s) (resp_proposalId response) = Some req"
      and "\<not> now > req_expiresAt req" and "approved response"
      and "webAuthnAuth response = None"
  shows "processApproval wm now response s = (Inl MissingSignature, s)"
  using assms by (simp add: processApproval_def Let_def)

lemma processApproval_approved:
  assumes "map_of (pendingApprovals s) (resp_proposalId response) = Some req"
      and "\<not> now > req_expiresAt req" and "approved response"
      and "webAuthnAuth response = Some auth"
  shows "processApproval wm now response s =
           (Inr (attachPasskeySignature wm (userOp req) auth),
            logAudit APPROVAL_RECEIVED (resp_proposalId response)
              ((updateProposalStatus (resp_proposalId response) APPROVED s)
                \<lparr>pendingApprovals := AList.delete (resp_proposalId response) (pendingApprovals s)\<rparr>))"
  using assms by (simp add: processApproval_def Let_def)

lemma processApproval_notfound:
  assumes "map_of (pendingApprovals s) (resp_proposalId response) = None"
  shows "processApproval wm now response s = (Inl NotFound, s)"
  using assms by (simp add: processApproval_def Let_def)

lemma rejectProposal_pending:
  assumes "map_of (pendingApprovals s) pid = Some req"
  shows "rejectProposal pid s =
           logAudit APPROVAL_REJECTED pid
             ((updateProposalStatus pid REJECTED s)
                \<lparr>pendingApprovals := AList.delete pid (pendingApprovals s)\<rparr>)"
  using assms by (simp add: rejectProposal_def)

lemma resolved_pending: "map_of (pendingApprovals (resolved ev st pid s)) pid = None"
  by (simp add: resolved_def logAudit_def map_of_delete_same)

lemma resolved_status:
  "getProposal s pid = Some p \<Longrightarrow> getProposal (resolved ev st pid s) pid = Some (p\<lparr>status := st\<rparr>)"
  by (simp add: resolved_def logAudit_def getProposal_def proposals_updateProposalStatus)

lemma resolved_then_notfound:
  "resp_proposalId response' = pid \<Longrightarrow>
   processApproval wm' now' response' (resolved ev st pid s) = (Inl NotFound, resolved ev st pid s)"
  by (simp add: processApproval_notfound resolved_pending)

lemma wellKeyed_new: "wellKeyed newApprovalFlow"
  by (simp add: wellKeyed_def newApprovalFlow_def)

lemma wellKeyed_requestApproval:
  "wellKeyed s \<Longrightarrow> wellKeyed (snd (requestApproval wm cfg now proposal vault uop s))"
proof -
  have "list_all (\<lambda>(k, r). proposalId r = k) al \<Longrightarrow> proposalId r = k \<Longrightarrow>
        list_all (\<lambda>(k, r). proposalId r = k) (AList.update k r al)" for al k and r :: "'a ApprovalRequest"
    by (induction al) auto
  then show "wellKeyed s \<Longrightarrow> wellKeyed (snd (requestApproval wm cfg now proposal vault uop s))"
    by (simp add: wellKeyed_def requestApproval_def Let_def logAudit_def)
qed

lemma wellKeyed_resolved: "wellKeyed s \<Longrightarrow> wellKeyed (resolved ev st pid s)"
proof -
  have "list_all (\<lambda>(k, r). proposalId r = k) al \<Longrightarrow>
        list_all (\<lambda>(k, r). proposalId r = k) (AList.delete pid al)" for al :: "(string \<times> 'a ApprovalRequest) list"
    by (induction al) auto
  then show "wellKeyed s \<Longrightarrow> wellKeyed (resolved ev st pid s)"
    by (simp add: wellKeyed_def resolved_def logAudit_def)
qed

lemma wellKeyed_processApproval:
  "wellKeyed s \<Longrightarrow> wellKeyed (snd (processApproval wm now response s))"
  using wellKeyed_resolved [of s _ _ "resp_proposalId response"]
  by (auto simp: processApproval_def Let_def resolved_def split: option.splits)

lemma wellKeyed_rejectProposal: "wellKeyed s \<Longrightarrow> wellKeyed (rejectProposal pid s)"
  using wellKeyed_resolved [of s _ _ pid]
  by (auto simp: rejectProposal_def resolved_def split: option.splits)

lemma wellKeyed_createProposal:
  "wellKeyed s \<Longrightarrow> wellKeyed (snd (createProposal cfg newId now fromP toP amt fromA toA gas s))"
  by (simp add: wellKeyed_def createProposal_def Let_def logAudit_def)

lemma map_of_delete_None: "map_of al pid = None \<Longrightarrow> map_of (AList.delete k al) pid = None"
  by (simp add: delete_conv')

lemma pending_updateProposalStatus:
  "pendingApprovals (updateProposalStatus pid st s) = pendingApprovals s"
  by (simp add: updateProposalStatus_def split: option.splits)

lemma cleanup_keeps_unlisted:
  "map_of (pendingApprovals s) pid = None \<Longrightarrow>
   map_of (pendingApprovals
     (foldl (\<lambda>s' (k, request).
              if now > req_expiresAt request
              then logAudit APPROVAL_EXPIRED k
                     ((updateProposalStatus k EXPIRED s')
                        \<lparr>pendingApprovals := AList.delete k (pendingApprovals s')\<rparr>)
              else s') s xs)) pid = None"
proof (induction xs arbitrary: s)
  case Nil
  then show ?case by simp
next
  case (Cons x xs)
  obtain k request where x: "x = (k, request)" by (cases x)
  show ?case
    unfolding x foldl_Cons
    by (rule Cons.IH) (simp add: Cons.prems logAudit_def map_of_delete_None)
qed

lemma applyOp_keeps_unlisted:
  assumes "map_of (pendingApprovals s) pid = None" and "\<not> requestsFor pid op"
  shows "map_of (pendingApprovals (applyOp wm cfg op s)) pid = None"
proof (cases op)
  case (OpCreateProposal newId now fromP toP amt fromA toA gas)
  with assms show ?thesis by (simp add: createProposal_def Let_def logAudit_def)
next
  case (OpUpdateProposalStatus k st)
  with assms show ?thesis by (simp add: pending_updateProposalStatus)
next
  case (OpRequestApproval now proposal vault uop)
  with assms show ?thesis
    by (simp add: requestApproval_def Let_def logAudit_def update_conv')
next
  case (OpProcessApproval now response)
  with assms show ?thesis
    by (auto simp: processApproval_def Let_def logAudit_def map_of_delete_None
             split: option.splits)
next
  case (OpRejectProposal k)
  with assms show ?thesis
    by (auto simp: rejectProposal_def logAudit_def map_of_delete_None split: option.splits)
next
  case (OpExecuteApprovedUserOp outcome k signedUserOp)
  with assms show ?thesis
    by (auto simp: executeApprovedUserOp_def Let_def logAudit_def pending_updateProposalStatus
             split: option.splits)
next
  case (OpCleanupExpired now)
  with assms show ?thesis
    by (simp add: cleanupExpired_flow_def cleanup_keeps_unlisted)
qed

lemma runOps_keeps_unlisted:
  "map_of (pendingApprovals s) pid = None \<Longrightarrow> \<forall>op \<in> set ops. \<not> requestsFor pid op \<Longrightarrow>
   map_of (pendingApprovals (runOps wm cfg ops s)) pid = None"
  unfolding runOps_def
  by (induction ops arbitrary: s) (simp_all add: applyOp_keeps_unlisted)

lemma resolved_runOps_notfound:
  "resp_proposalId response' = pid \<Longrightarrow> \<forall>op \<in> set ops. \<not> requestsFor pid op \<Longrightarrow>
   processApproval wm' now' response' (runOps wm' cfg' ops (resolved ev st pid s))
     = (Inl NotFound, runOps wm' cfg' ops (resolved ev st pid s))"
  by (simp add: processApproval_notfound runOps_keeps_unlisted resolved_pending)

text \<open>
  C4.  A pending approval request whose \<open>expiresAt\<close> lies in the past when
  \<open>processApproval\<close> is called: the call fails with the expiry error, the request
  leaves the pending set, the status of the proposal (the one the flow tracks under
  that id) becomes \<open>EXPIRED\<close>, and \<open>getPendingApprovals\<close> afterwards lists no
  request for that proposal id.
\<close>

theorem processApproval_expiry:
  assumes inv: "wellKeyed s"
      and pend: "map_of (pendingApprovals s) (resp_proposalId response) = Some req"
      and late: "now > req_expiresAt req"
  shows "fst (processApproval wm now response s) = Inl Expired
       \<and> map_of (pendingApprovals (snd (processApproval wm now response s))) (resp_proposalId response) = None
       \<and> (\<forall>r \<in> set (getPendingApprovals (snd (processApproval wm now response s))).
             proposalId r \<noteq> resp_proposalId response)
       \<and> (\<forall>p. getProposal s (resp_proposalId response) = Some p \<longrightarrow>
             getProposal (snd (processApproval wm now response s)) (resp_proposalId response)
               = Some (p\<lparr>status := EXPIRED\<rparr>))"
proof -
  let ?pid = "resp_proposalId response"
  let ?s' = "snd (processApproval wm now response s)"
  have eq: "processApproval wm now response s =
           (Inl Expired,
            logAudit APPROVAL_EXPIRED ?pid
              ((updateProposalStatus ?pid EXPIRED s)
                \<lparr>pendingApprovals := AList.delete ?pid (pendingApprovals s)\<rparr>))"
    using pend late by (rule processApproval_expired)
  have pa: "pendingApprovals ?s' = AList.delete ?pid (pendingApprovals s)"
    by (simp add: eq logAudit_def)
  have pr: "proposals ?s' = proposals (updateProposalStatus ?pid EXPIRED s)"
    by (simp add: eq logAudit_def)
  have 1: "fst (processApproval wm now response s) = Inl Expired" by (simp add: eq)
  have 2: "map_of (pendingApprovals ?s') ?pid = None" by (simp add: pa map_of_delete_same)
  have 3: "\<forall>r \<in> set (getPendingApprovals ?s'). proposalId r \<noteq> ?pid"
    unfolding getPendingApprovals_def pa
    using inv delete_wellKeyed_no_pid unfolding wellKeyed_def by blast
  have 4: "\<forall>p. getProposal s ?pid = Some p \<longrightarrow> getProposal ?s' ?pid = Some (p\<lparr>status := EXPIRED\<rparr>)"
    by (simp add: getProposal_def pr proposals_updateProposalStatus)
  from 1 2 3 4 show ?thesis by blast
qed

theorem processApproval_expiry_witness:
  "wellKeyed (snd ex_requested)
   \<and> map_of (pendingApprovals (snd ex_requested)) (resp_proposalId (ex_response True (Some ex_auth)))
        = Some (fst ex_requested)
   \<and> 1011 > req_expiresAt (fst ex_requested)
   \<and> fst (processApproval ex_wm 1011 (ex_response True (Some ex_auth)) (snd ex_requested)) = Inl Expired
   \<and> map_option status
        (getProposal (snd (processApproval ex_wm 1011 (ex_response True (Some ex_auth)) (snd ex_requested))) ''p1'')
        = Some EXPIRED
   \<and> getPendingApprovals (snd (processApproval ex_wm 1011 (ex_response True (Some ex_auth)) (snd ex_requested))) = []"
proof -
  have a: "wellKeyed (snd ex_requested)" by (simp add: ex_defs)
  have b: "map_of (pendingApprovals (snd ex_requested)) (resp_proposalId (ex_response True (Some ex_auth)))
        = Some (fst ex_requested)" by (simp add: ex_defs)
  have c: "1011 > req_expiresAt (fst ex_requested)" by (simp add: ex_defs)
  have g: "getProposal (snd ex_requested) ''p1'' = Some (fst ex_created)" by (simp add: ex_defs)
  note t = processApproval_expiry [OF a b c, of ex_wm]
  have d: "map_option status
        (getProposal (snd (processApproval ex_wm 1011 (ex_response True (Some ex_auth)) (snd ex_requested))) ''p1'')
        = Some EXPIRED"
    using t g by (simp add: ex_response_def)
  have e: "getPendingApprovals (snd (processApproval ex_wm 1011 (ex_response True (Some ex_auth)) (snd ex_requested))) = []"
    by (simp add: processApproval_def getPendingApprovals_def ex_defs)
  from a b c d e t show ?thesis by blast
qed

text \<open>
  C10.  A non-expired pending request and a response with \<open>approved = true\<close> but no
  WebAuthn assertion: the call fails with the missing-signature error and returns the
  state it was given (so the request is still pending and the proposal keeps its
  status); a later response for the same id that carries an assertion, processed
  before expiry, yields the signed operation and status \<open>APPROVED\<close>.
\<close>

theorem processApproval_missing_signature:
  assumes pend: "map_of (pendingApprovals s) (resp_proposalId response) = Some req"
      and fresh: "now \<le> req_expiresAt req"
      and ok: "approved response"
      and nosig: "webAuthnAuth response = None"
  shows "processApproval wm now response s = (Inl MissingSignature, s)
       \<and> (\<forall>now' response' auth.
             resp_proposalId response' = resp_proposalId response \<and> now' \<le> req_expiresAt req
             \<and> approved response' \<and> webAuthnAuth response' = Some auth \<longrightarrow>
             fst (processApproval wm now' response' (snd (processApproval wm now response s)))
               = Inr (attachPasskeySignature wm (userOp req) auth)
             \<and> (\<forall>p. getProposal s (resp_proposalId response) = Some p \<longrightarrow>
                  getProposal (snd (processApproval wm now' response'
                                  (snd (processApproval wm now response s))))
                    (resp_proposalId response) = Some (p\<lparr>status := APPROVED\<rparr>)))"
proof -
  have same: "processApproval wm now response s = (Inl MissingSignature, s)"
    using pend fresh ok nosig by (simp add: processApproval_missing)
  have later: "fst (processApproval wm now' response' s) = Inr (attachPasskeySignature wm (userOp req) auth)
      \<and> (\<forall>p. getProposal s (resp_proposalId response) = Some p \<longrightarrow>
            getProposal (snd (processApproval wm now' response' s)) (resp_proposalId response)
              = Some (p\<lparr>status := APPROVED\<rparr>))"
    if h: "resp_proposalId response' = resp_proposalId response" "now' \<le> req_expiresAt req"
          "approved response'" "webAuthnAuth response' = Some auth"
    for now' response' auth
  proof -
    have "processApproval wm now' response' s =
           (Inr (attachPasskeySignature wm (userOp req) auth),
            resolved APPROVAL_RECEIVED APPROVED (resp_proposalId response) s)"
      using processApproval_approved [of s response' req now' auth wm] pend h
      by (simp add: resolved_def)
    then show ?thesis by (simp add: resolved_status)
  qed
  show ?thesis unfolding same using later by simp
qed

theorem processApproval_missing_signature_witness:
  "map_of (pendingApprovals (snd ex_requested)) (resp_proposalId (ex_response True None))
        = Some (fst ex_requested)
   \<and> 1001 \<le> req_expiresAt (fst ex_requested)
   \<and> approved (ex_response True None) \<and> webAuthnAuth (ex_response True None) = None
   \<and> processApproval ex_wm 1001 (ex_response True None) (snd ex_requested)
        = (Inl MissingSignature, snd ex_requested)
   \<and> map_option status (getProposal (snd ex_requested) ''p1'') = Some PENDING_APPROVAL
   \<and> fst (processApproval ex_wm 1001 (ex_response True (Some ex_auth))
             (snd (processApproval ex_wm 1001 (ex_response True None) (snd ex_requested))))
        = Inr (ex_userOp\<lparr>signature := ''0xsigned''\<rparr>)
   \<and> map_option status (getProposal (snd (processApproval ex_wm 1001 (ex_response True (Some ex_auth))
             (snd (processApproval ex_wm 1001 (ex_response True None) (snd ex_requested))))) ''p1'')
        = Some APPROVED"
proof -
  have b: "map_of (pendingApprovals (snd ex_requested)) (resp_proposalId (ex_response True None))
        = Some (fst ex_requested)" by (simp add: ex_defs)
  have c: "1001 \<le> req_expiresAt (fst ex_requested)" by (simp add: ex_defs)
  have d: "approved (ex_response True None)" "webAuthnAuth (ex_response True None) = None"
    by (simp_all add: ex_response_def)
  have g: "getProposal (snd ex_requested) ''p1'' = Some (fst ex_created)" by (simp add: ex_defs)
  have st: "map_option status (getProposal (snd ex_requested) ''p1'') = Some PENDING_APPROVAL"
    by (simp add: ex_defs)
  have u: "attachPasskeySignature ex_wm (userOp (fst ex_requested)) ex_auth
             = ex_userOp\<lparr>signature := ''0xsigned''\<rparr>"
    by (simp add: ex_defs)
  note t = processApproval_missing_signature [OF b c d, of ex_wm]
  from t have t1: "processApproval ex_wm 1001 (ex_response True None) (snd ex_requested)
        = (Inl MissingSignature, snd ex_requested)" by blast
  have pre: "resp_proposalId (ex_response True (Some ex_auth)) = resp_proposalId (ex_response True None)
        \<and> 1001 \<le> req_expiresAt (fst ex_requested)
        \<and> approved (ex_response True (Some ex_auth))
        \<and> webAuthnAuth (ex_response True (Some ex_auth)) = Some ex_auth"
    using c by (simp add: ex_response_def)
  note t' = t [THEN conjunct2, rule_format, OF pre]
  from t' have t2: "fst (processApproval ex_wm 1001 (ex_response True (Some ex_auth))
             (snd (processApproval ex_wm 1001 (ex_response True None) (snd ex_requested))))
               = Inr (attachPasskeySignature ex_wm (userOp (fst ex_requested)) ex_auth)"
    by blast
  have g': "getProposal (snd ex_requested) (resp_proposalId (ex_response True None)) = Some (fst ex_created)"
    using g by (simp add: ex_response_def)
  from t' [THEN conjunct2, rule_format, OF g']
  have t3: "map_option status (getProposal (snd (processApproval ex_wm 1001 (ex_response True (Some ex_auth))
             (snd (processApproval ex_wm 1001 (ex_response True None) (snd ex_requested))))) ''p1'')
        = Some APPROVED" by (simp add: ex_response_def)
  from b c d t1 st t2 t3 u show ?thesis by simp
qed

text \<open>
  C5 as stated fails in two places.  \<open>processApproval\<close> tests expiry before it
  looks at \<open>approved\<close>, so a response with \<open>approved = false\<close> that arrives after
  \<open>expiresAt\<close> ends in \<open>EXPIRED\<close> with the expiry error, not in \<open>REJECTED\<close>.
  And a rejection does not close the proposal for good: \<open>requestApproval\<close> never
  reads the status, so after the rejection at instant 1001 a second
  \<open>requestApproval\<close> for the same (now \<open>REJECTED\<close>) proposal lists a request
  again, and an approving response with an assertion then returns the signed
  operation and sets the status to \<open>APPROVED\<close>.
\<close>

theorem rejection_after_expiry_counterexample:
  "map_of (pendingApprovals (snd ex_requested)) ''p1'' = Some (fst ex_requested)
   \<and> \<not> approved (ex_response False None)
   \<and> fst (processApproval ex_wm 1011 (ex_response False None) (snd ex_requested)) = Inl Expired
   \<and> map_option status
        (getProposal (snd (processApproval ex_wm 1011 (ex_response False None) (snd ex_requested))) ''p1'')
        = Some EXPIRED
   \<and> map_option status
        (getProposal (snd (processApproval ex_wm 1011 (ex_response False None) (snd ex_requested))) ''p1'')
        \<noteq> Some REJECTED
   \<and> fst (processApproval ex_wm 1001 (ex_response False None) (snd ex_requested)) = Inl Rejected
   \<and> getProposal ex_rejected ''p1'' = Some ((fst ex_created)\<lparr>status := REJECTED\<rparr>)
   \<and> getPendingApprovals ex_rejected = []
   \<and> fst (processApproval ex_wm 1001 (ex_response True (Some ex_auth)) ex_rerequested)
        = Inr (ex_userOp\<lparr>signature := ''0xsigned''\<rparr>)
   \<and> fst (processApproval ex_wm 1001 (ex_response True (Some ex_auth)) ex_rerequested)
        \<noteq> Inl NotFound
   \<and> map_option status
        (getProposal (snd (processApproval ex_wm 1001 (ex_response True (Some ex_auth)) ex_rerequested)) ''p1'')
        = Some APPROVED"
  by (simp add: processApproval_def updateProposalStatus_def getPendingApprovals_def
        ex_rejected_def ex_rerequested_def ex_defs)

text \<open>
  C5, amended.  A response with \<open>approved = false\<close> for a pending request that has
  not expired, or \<open>rejectProposal\<close> on an id with a pending request (expired or
  not), sets the tracked proposal's status to \<open>REJECTED\<close> and deletes the pending
  request.  From then on, after any sequence of calls of the flow's methods
  (\<open>createProposal\<close>, \<open>updateProposalStatus\<close>, \<open>requestApproval\<close>,
  \<open>processApproval\<close>, \<open>rejectProposal\<close>, \<open>executeApprovedUserOp\<close>,
  \<open>cleanupExpired\<close>) that contains no \<open>requestApproval\<close> for a proposal with
  that id, every \<open>processApproval\<close> for that id, whatever the response carries,
  fails with \<open>NotFound\<close> and changes nothing.  \<open>rejectProposal\<close> on an id without
  a pending request returns the state unchanged.
\<close>

theorem rejection_terminal:
  "(map_of (pendingApprovals s) (resp_proposalId response) = Some req
      \<and> now \<le> req_expiresAt req \<and> \<not> approved response \<longrightarrow>
        fst (processApproval wm now response s) = Inl Rejected
      \<and> map_of (pendingApprovals (snd (processApproval wm now response s))) (resp_proposalId response) = None
      \<and> (\<forall>p. getProposal s (resp_proposalId response) = Some p \<longrightarrow>
            getProposal (snd (processApproval wm now response s)) (resp_proposalId response)
              = Some (p\<lparr>status := REJECTED\<rparr>))
      \<and> (\<forall>wm' cfg' ops now' response'.
            resp_proposalId response' = resp_proposalId response
            \<and> (\<forall>op \<in> set ops. \<not> requestsFor (resp_proposalId response) op) \<longrightarrow>
            processApproval wm' now' response'
                (runOps wm' cfg' ops (snd (processApproval wm now response s)))
              = (Inl NotFound, runOps wm' cfg' ops (snd (processApproval wm now response s)))))
   \<and> (map_of (pendingApprovals s) pid = Some req \<longrightarrow>
        map_of (pendingApprovals (rejectProposal pid s)) pid = None
      \<and> (\<forall>p. getProposal s pid = Some p \<longrightarrow>
            getProposal (rejectProposal pid s) pid = Some (p\<lparr>status := REJECTED\<rparr>))
      \<and> (\<forall>wm' cfg' ops now' response'.
            resp_proposalId response' = pid \<and> (\<forall>op \<in> set ops. \<not> requestsFor pid op) \<longrightarrow>
            processApproval wm' now' response' (runOps wm' cfg' ops (rejectProposal pid s))
              = (Inl NotFound, runOps wm' cfg' ops (rejectProposal pid s))))
   \<and> (map_of (pendingApprovals s) pid = None \<longrightarrow> rejectProposal pid s = s)"
proof (intro conjI impI)
  assume h: "map_of (pendingApprovals s) (resp_proposalId response) = Some req
      \<and> now \<le> req_expiresAt req \<and> \<not> approved response"
  then have eq: "processApproval wm now response s =
      (Inl Rejected, resolved APPROVAL_REJECTED REJECTED (resp_proposalId response) s)"
    using processApproval_rejected [of s response req now wm] by (simp add: resolved_def)
  show "fst (processApproval wm now response s) = Inl Rejected" by (simp add: eq)
  show "map_of (pendingApprovals (snd (processApproval wm now response s))) (resp_proposalId response) = None"
    by (simp add: eq resolved_pending)
  show "\<forall>p. getProposal s (resp_proposalId response) = Some p \<longrightarrow>
            getProposal (snd (processApproval wm now response s)) (resp_proposalId response)
              = Some (p\<lparr>status := REJECTED\<rparr>)"
    by (simp add: eq resolved_status)
  show "\<forall>wm' cfg' ops now' response'.
            resp_proposalId response' = resp_proposalId response
            \<and> (\<forall>op \<in> set ops. \<not> requestsFor (resp_proposalId response) op) \<longrightarrow>
            processApproval wm' now' response'
                (runOps wm' cfg' ops (snd (processApproval wm now response s)))
              = (Inl NotFound, runOps wm' cfg' ops (snd (processApproval wm now response s)))"
    by (simp add: eq resolved_runOps_notfound)
next
  assume h: "map_of (pendingApprovals s) pid = Some req"
  then have eq: "rejectProposal pid s = resolved APPROVAL_REJECTED REJECTED pid s"
    by (simp add: rejectProposal_pending resolved_def)
  show "map_of (pendingApprovals (rejectProposal pid s)) pid = None"
    by (simp add: eq resolved_pending)
  show "\<forall>p. getProposal s pid = Some p \<longrightarrow>
            getProposal (rejectProposal pid s) pid = Some (p\<lparr>status := REJECTED\<rparr>)"
    by (simp add: eq resolved_status)
  show "\<forall>wm' cfg' ops now' response'.
            resp_proposalId response' = pid \<and> (\<forall>op \<in> set ops. \<not> requestsFor pid op) \<longrightarrow>
            processApproval wm' now' response' (runOps wm' cfg' ops (rejectProposal pid s))
              = (Inl NotFound, runOps wm' cfg' ops (rejectProposal pid s))"
    by (simp add: eq resolved_runOps_notfound)
next
  assume "map_of (pendingApprovals s) pid = None"
  then show "rejectProposal pid s = s" by (simp add: rejectProposal_def)
qed

theorem rejection_terminal_witness:
  "map_of (pendingApprovals (snd ex_requested)) (resp_proposalId (ex_response False None))
      = Some (fst ex_requested)
   \<and> 1001 \<le> req_expiresAt (fst ex_requested) \<and> \<not> approved (ex_response False None)
   \<and> fst (processApproval ex_wm 1001 (ex_response False None) (snd ex_requested)) = Inl Rejected
   \<and> map_option status
        (getProposal (snd (processApproval ex_wm 1001 (ex_response False None) (snd ex_requested))) ''p1'')
        = Some REJECTED
   \<and> fst (processApproval ex_wm 1001 (ex_response True (Some ex_auth))
            (snd (processApproval ex_wm 1001 (ex_response False None) (snd ex_requested))))
        = Inl NotFound
   \<and> filter (requestsFor ''p1'') ex_ops = []
   \<and> fst (processApproval ex_wm 1600 (ex_response True (Some ex_auth))
            (runOps ex_wm ex_cfg ex_ops
               (snd (processApproval ex_wm 1001 (ex_response False None) (snd ex_requested)))))
        = Inl NotFound
   \<and> map_option status (getProposal (rejectProposal ''p1'' (snd ex_requested)) ''p1'') = Some REJECTED
   \<and> fst (processApproval ex_wm 1001 (ex_response True (Some ex_auth))
            (rejectProposal ''p1'' (snd ex_requested))) = Inl NotFound
   \<and> fst (processApproval ex_wm 1600 (ex_response True (Some ex_auth))
            (runOps ex_wm ex_cfg ex_ops (rejectProposal ''p1'' (snd ex_requested)))) = Inl NotFound
   \<and> map_of (pendingApprovals (snd ex_created)) ''p1'' = None
   \<and> rejectProposal ''p1'' (snd ex_created) = snd ex_created"
proof -
  have b: "map_of (pendingApprovals (snd ex_requested)) (resp_proposalId (ex_response False None))
        = Some (fst ex_requested)" by (simp add: ex_defs)
  have b': "map_of (pendingApprovals (snd ex_requested)) ''p1'' = Some (fst ex_requested)"
    by (simp add: ex_defs)
  have c: "1001 \<le> req_expiresAt (fst ex_requested)" by (simp add: ex_defs)
  have d: "\<not> approved (ex_response False None)" by (simp add: ex_response_def)
  have g: "getProposal (snd ex_requested) ''p1'' = Some (fst ex_created)" by (simp add: ex_defs)
  have i: "resp_proposalId (ex_response False None) = ''p1''"
          "resp_proposalId (ex_response True (Some ex_auth)) = ''p1''"
    by (simp_all add: ex_response_def)
  have n: "map_of (pendingApprovals (snd ex_created)) ''p1'' = None" by (simp add: ex_defs)
  have f: "filter (requestsFor ''p1'') ex_ops = []"
    by (simp add: ex_ops_def ex_second_def createProposal_def Let_def)
  then have o: "\<forall>op \<in> set ex_ops. \<not> requestsFor ''p1'' op"
    by (simp add: filter_empty_conv)
  have e: "\<forall>op \<in> set []. \<not> requestsFor ''p1'' op" by simp
  have r0: "runOps wm' cfg' [] s' = s'" for wm' and cfg' :: "unit ApprovalFlowConfig" and s'
    by (simp add: runOps_def)
  note t1 = rejection_terminal [of "snd ex_requested" "ex_response False None" "fst ex_requested"
               1001 ex_wm "''p1''", THEN conjunct1, rule_format, OF conjI [OF b conjI [OF c d]]]
  note t2 = rejection_terminal [of "snd ex_requested" "ex_response False None" "fst ex_requested"
               1001 ex_wm "''p1''", THEN conjunct2, THEN conjunct1, rule_format, OF b']
  note t3 = rejection_terminal [of "snd ex_created" "ex_response False None" "fst ex_requested"
               1001 ex_wm "''p1''", THEN conjunct2, THEN conjunct2, rule_format, OF n]
  have r1: "fst (processApproval ex_wm 1001 (ex_response False None) (snd ex_requested)) = Inl Rejected"
    using t1 by blast
  have r2: "map_option status
        (getProposal (snd (processApproval ex_wm 1001 (ex_response False None) (snd ex_requested))) ''p1'')
        = Some REJECTED"
    using t1 [THEN conjunct2, THEN conjunct2, THEN conjunct1, rule_format, of "fst ex_created"] g i
    by (simp add: ex_created_def createProposal_def Let_def)
  have r3: "fst (processApproval ex_wm 1001 (ex_response True (Some ex_auth))
            (snd (processApproval ex_wm 1001 (ex_response False None) (snd ex_requested))))
        = Inl NotFound"
    using t1 [THEN conjunct2, THEN conjunct2, THEN conjunct2, rule_format,
              of "ex_response True (Some ex_auth)" "[]" ex_wm 1001 ex_cfg] i e
    by (simp add: r0)
  have r3': "fst (processApproval ex_wm 1600 (ex_response True (Some ex_auth))
            (runOps ex_wm ex_cfg ex_ops
               (snd (processApproval ex_wm 1001 (ex_response False None) (snd ex_requested)))))
        = Inl NotFound"
    using t1 [THEN conjunct2, THEN conjunct2, THEN conjunct2, rule_format,
              of "ex_response True (Some ex_auth)" ex_ops ex_wm 1600 ex_cfg] i o
    by simp
  have r4: "map_option status (getProposal (rejectProposal ''p1'' (snd ex_requested)) ''p1'') = Some REJECTED"
    using t2 [THEN conjunct2, THEN conjunct1, rule_format, OF g] by simp
  have r5: "fst (processApproval ex_wm 1001 (ex_response True (Some ex_auth))
            (rejectProposal ''p1'' (snd ex_requested))) = Inl NotFound"
    using t2 [THEN conjunct2, THEN conjunct2, rule_format,
              of "ex_response True (Some ex_auth)" "[]" ex_wm 1001 ex_cfg] i e
    by (simp add: r0)
  have r5': "fst (processApproval ex_wm 1600 (ex_response True (Some ex_auth))
            (runOps ex_wm ex_cfg ex_ops (rejectProposal ''p1'' (snd ex_requested)))) = Inl NotFound"
    using t2 [THEN conjunct2, THEN conjunct2, rule_format,
              of "ex_response True (Some ex_auth)" ex_ops ex_wm 1600 ex_cfg] i o
    by simp
  from b c d r1 r2 r3 r3' r4 r5 r5' n f t3 show ?thesis by blast
qed

lemma urlencode_safe: "set v \<subseteq> set urlSafeChars \<Longrightarrow> urlencode v = v"
  by (induction v) (simp_all add: urlencode_def urlencodeByte_def)

lemma urlencode_names: "urlencode ''id'' = ''id''" "urlencode ''hash'' = ''hash''"
  "urlencode ''vault'' = ''vault''"
  by (simp_all add: urlencode_def urlencodeByte_def urlSafeChars_def)

lemma generateApprovalUrl_form:
  "generateApprovalUrl cfg pid hash vault =
     approvalUiBaseUrl cfg @ ''?id='' @ urlencode pid @ ''&hash='' @ urlencode hash
       @ ''&vault='' @ urlencode vault"
  by (simp add: generateApprovalUrl_def urlencode_names)

text \<open>
  C9 as stated fails: the third query parameter is named \<open>vault\<close>, not
  \<open>target\<close> (the approval page reads \<open>params.get('vault')\<close>).
\<close>

theorem approvalUrl_target_counterexample:
  "approvalUrl (fst (fst (requestApproval ex_wm ex_cfg 1000 (fst ex_created) ''0x1111'' ex_userOp (snd ex_created))))
     = ''https://approve.test?id=p1&hash=0xabc123&vault=0x1111''
   \<and> approvalUrl (fst (fst (requestApproval ex_wm ex_cfg 1000 (fst ex_created) ''0x1111'' ex_userOp (snd ex_created))))
     \<noteq> approvalUiBaseUrl ex_cfg @ ''?id='' @ rp_id (fst ex_created) @ ''&hash=''
         @ getUserOpHash ex_wm ex_userOp @ ''&target='' @ ''0x1111''"
  by (simp add: ex_defs generateApprovalUrl_form urlencode_def urlencodeByte_def urlSafeChars_def)

text \<open>
  C9, amended.  The approval URL of a request created by \<open>requestApproval\<close> is
  the base URL, \<open>?id=\<close>, the proposal id, \<open>&hash=\<close>, the user-operation hash,
  \<open>&vault=\<close>, the vault address, each value form-urlencoded; for values made of
  ASCII letters, digits and \<open>* - . _\<close> only (nanoid ids, 0x-prefixed hex) the
  encoding is the identity.  The request is stored under the proposal id, and the
  notification returned with it carries the same URL.
\<close>

theorem approvalUrl_form:
  "approvalUrl (fst (fst (requestApproval wm cfg now proposal vault uop s)))
     = approvalUiBaseUrl cfg @ ''?id='' @ urlencode (rp_id proposal)
         @ ''&hash='' @ urlencode (getUserOpHash wm uop) @ ''&vault='' @ urlencode vault
   \<and> (set (rp_id proposal) \<subseteq> set urlSafeChars \<and> set (getUserOpHash wm uop) \<subseteq> set urlSafeChars
        \<and> set vault \<subseteq> set urlSafeChars \<longrightarrow>
       approvalUrl (fst (fst (requestApproval wm cfg now proposal vault uop s)))
         = approvalUiBaseUrl cfg @ ''?id='' @ rp_id proposal
             @ ''&hash='' @ getUserOpHash wm uop @ ''&vault='' @ vault)
   \<and> map_of (pendingApprovals (snd (requestApproval wm cfg now proposal vault uop s))) (rp_id proposal)
       = Some (fst (fst (requestApproval wm cfg now proposal vault uop s)))
   \<and> ntf_approvalUrl (snd (fst (requestApproval wm cfg now proposal vault uop s)))
       = approvalUrl (fst (fst (requestApproval wm cfg now proposal vault uop s)))"
proof -
  have n: "ntf_approvalUrl (snd (fst (requestApproval wm cfg now proposal vault uop s)))
       = approvalUrl (fst (fst (requestApproval wm cfg now proposal vault uop s)))"
    by (simp add: requestApproval_def Let_def)
  have u: "approvalUrl (fst (fst (requestApproval wm cfg now proposal vault uop s)))
     = generateApprovalUrl cfg (rp_id proposal) (getUserOpHash wm uop) vault"
    by (simp add: requestApproval_def Let_def)
  have m: "map_of (pendingApprovals (snd (requestApproval wm cfg now proposal vault uop s))) (rp_id proposal)
       = Some (fst (fst (requestApproval wm cfg now proposal vault uop s)))"
    by (simp add: requestApproval_def Let_def logAudit_def update_conv')
  show ?thesis
    using m n by (simp add: u generateApprovalUrl_form urlencode_safe)
qed

theorem approvalUrl_form_witness:
  "set (rp_id (fst ex_created)) \<subseteq> set urlSafeChars
   \<and> set (getUserOpHash ex_wm ex_userOp) \<subseteq> set urlSafeChars
   \<and> set ''0x1111'' \<subseteq> set urlSafeChars
   \<and> approvalUrl (fst (fst (requestApproval ex_wm ex_cfg 1000 (fst ex_created) ''0x1111'' ex_userOp (snd ex_created))))
       = ''https://approve.test?id=p1&hash=0xabc123&vault=0x1111''
   \<and> approvalUrl (fst (fst (requestApproval ex_wm ex_cfg 1000 (fst ex_created) ''a b/c'' ex_userOp (snd ex_created))))
       = ''https://approve.test?id=p1&hash=0xabc123&vault=a+b%2Fc''"
proof -
  have a: "set (rp_id (fst ex_created)) \<subseteq> set urlSafeChars \<and> set (getUserOpHash ex_wm ex_userOp) \<subseteq> set urlSafeChars
     \<and> set ''0x1111'' \<subseteq> set urlSafeChars"
    by (simp add: ex_defs urlSafeChars_def)
  note t = approvalUrl_form [of ex_wm ex_cfg 1000 "fst ex_created" "''0x1111''" ex_userOp "snd ex_created"]
  from t [THEN conjunct2, THEN conjunct1, rule_format, OF a]
  have b: "approvalUrl (fst (fst (requestApproval ex_wm ex_cfg 1000 (fst ex_created) ''0x1111'' ex_userOp (snd ex_created))))
       = ''https://approve.test?id=p1&hash=0xabc123&vault=0x1111''"
    by (simp add: ex_cfg_def ex_wm_def ex_created_def createProposal_def Let_def)
  from approvalUrl_form [of ex_wm ex_cfg 1000 "fst ex_created" "''a b/c''" ex_userOp "snd ex_created",
         THEN conjunct1]
  have c: "approvalUrl (fst (fst (requestApproval ex_wm ex_cfg 1000 (fst ex_created) ''a b/c'' ex_userOp (snd ex_created))))
       = ''https://approve.test?id=p1&hash=0xabc123&vault=a+b%2Fc''"
    by (simp add: ex_cfg_def ex_wm_def ex_created_def createProposal_def Let_def
          urlencode_def urlencodeByte_def urlSafeChars_def hexDigit_def)
  from a b c show ?thesis by blast
qed

section \<open>Properties of the rate history\<close>

subsection \<open>Recording and pruning\<close>

lemma entriesOf_recordEntry_same:
  "entriesOf (recordEntry h entry now) (protocolId entry) =
     (let pruned = filter (\<lambda>e. timestamp e \<ge> fsub now (windowMs h)) (entriesOf h (protocolId entry) @ [entry])
      in if length pruned > MAX_ENTRIES_PER_PROTOCOL then slice_last MAX_ENTRIES_PER_PROTOCOL pruned else pruned)"
  by (simp add: recordEntry_def entriesOf_def Let_def)

lemma entriesOf_recordEntry_other:
  "pid \<noteq> protocolId entry \<Longrightarrow> entriesOf (recordEntry h entry now) pid = entriesOf h pid"
  by (simp add: recordEntry_def entriesOf_def Let_def)

lemma windowMs_recordEntry: "windowMs (recordEntry h entry now) = windowMs h"
  by (simp add: recordEntry_def Let_def)

lemma limited_suffix:
  "xs = take (length xs - n) xs @ (if length xs > n then slice_last n xs else xs)
   \<and> length (take (length xs - n) xs) = length xs - n"
  by (simp add: slice_last_def)

lemma limited_subset: "set (if length xs > n then slice_last n xs else xs) \<subseteq> set xs"
  by (auto simp: slice_last_def dest: in_set_dropD)

lemma limited_length: "length (if length xs > n then slice_last n xs else xs) \<le> n"
  by (simp add: slice_last_def)

lemma capped_iff: "capped h \<longleftrightarrow> (\<forall>pid. length (entriesOf h pid) \<le> MAX_ENTRIES_PER_PROTOCOL)"
proof -
  have "pid \<in> set allProtocolIds" for pid
    by (cases pid) (simp_all add: allProtocolIds_def)
  then show ?thesis by (auto simp: capped_def list_all_iff)
qed

lemma capped_new: "capped (newRateHistory w)"
  by (simp add: capped_iff newRateHistory_def entriesOf_def)

lemma ex_full_entries: "entriesOf ex_full aave = replicate 1000 (ex_entry aave (1/32) 10)"
  "entriesOf ex_full compound = []" "windowMs ex_full = 1000"
  by (simp_all add: ex_full_def entriesOf_def)

lemma ex_unordered_entries:
  "entriesOf ex_unordered aave = ex_entry aave (1/32) 10 # replicate 999 (ex_entry aave (1/32) 5)"
  "windowMs ex_unordered = 1000"
  by (simp_all add: ex_unordered_def entriesOf_def)

lemma ex_cutoffs: "fsub 20 1000 = - 980" "fsub 5000 1000 = 4000" "fsub 0 1000 = - 1000"
  by code_simp+

lemma sorted_drop_retain:
  assumes "xs = dropped @ kept" and "sorted (map timestamp xs)"
  shows "\<forall>d \<in> set dropped. \<forall>e \<in> set kept. timestamp d \<le> timestamp e"
  using assms by (auto simp: sorted_append)

text \<open>
  C7 as stated fails in two places.  \<open>record\<close> prunes only the list of the protocol
  it records for: after the aave sample is recorded at instant 5000 (window 1000 ms),
  the compound list still holds the sample of instant 0.  And beyond the cap it drops
  the samples recorded first, whatever their timestamps: in \<open>ex_unordered\<close> the
  sample dropped carries timestamp 10 while the 999 samples kept carry timestamp 5.
\<close>

theorem recordEntry_other_source_counterexample:
  "map timestamp (entriesOf ex_stale compound) = [0]
   \<and> (0::rat) < fsub 5000 (windowMs ex_stale)
   \<and> map timestamp (entriesOf ex_unordered aave) = 10 # replicate 999 5
   \<and> map timestamp (entriesOf (recordEntry ex_unordered (ex_entry aave (1/16) 20) 20) aave)
       = replicate 999 5 @ [20]"
proof -
  have a: "map timestamp (entriesOf ex_stale compound) = [0]"
    by (simp add: ex_stale_def ex_entry_def recordEntry_def newRateHistory_def entriesOf_def
          MAX_ENTRIES_PER_PROTOCOL_def ex_cutoffs Let_def)
  have b: "(0::rat) < fsub 5000 (windowMs ex_stale)"
    by (simp add: ex_stale_def recordEntry_def newRateHistory_def ex_cutoffs Let_def)
  have c: "map timestamp (entriesOf ex_unordered aave) = 10 # replicate 999 5"
    by (simp add: ex_unordered_entries ex_entry_def)
  have d: "map timestamp (entriesOf (recordEntry ex_unordered (ex_entry aave (1/16) 20) 20) aave)
       = replicate 999 5 @ [20]"
    by (simp add: entriesOf_recordEntry_same [of ex_unordered "ex_entry aave (1/16) 20" 20, simplified ex_entry_def, simplified]
          ex_unordered_entries ex_entry_def MAX_ENTRIES_PER_PROTOCOL_def slice_last_def ex_cutoffs Let_def)
  from a b c d show ?thesis by blast
qed

text \<open>
  C7, amended.  After \<open>record(sample)\<close> the list of the sample's own protocol holds
  only samples whose timestamp is at or after \<open>now - windowMs\<close>, and at most 1000 of
  them; it is a suffix of the pruned list (the old list with the sample appended,
  filtered by age), so what is dropped beyond the cap are the samples recorded first,
  and these are the oldest by timestamp whenever the pruned list is in timestamp
  order.  The lists of the other protocols are left exactly as they were, and the cap
  of 1000 on every list is preserved.
\<close>

theorem recordEntry_prunes:
  "(\<forall>e \<in> set (entriesOf (recordEntry h entry now) (protocolId entry)).
       timestamp e \<ge> fsub now (windowMs h))
   \<and> length (entriesOf (recordEntry h entry now) (protocolId entry)) \<le> MAX_ENTRIES_PER_PROTOCOL
   \<and> (\<exists>dropped.
         filter (\<lambda>e. timestamp e \<ge> fsub now (windowMs h)) (entriesOf h (protocolId entry) @ [entry])
           = dropped @ entriesOf (recordEntry h entry now) (protocolId entry)
         \<and> length dropped =
             length (filter (\<lambda>e. timestamp e \<ge> fsub now (windowMs h)) (entriesOf h (protocolId entry) @ [entry]))
               - MAX_ENTRIES_PER_PROTOCOL
         \<and> (sorted (map timestamp
                (filter (\<lambda>e. timestamp e \<ge> fsub now (windowMs h)) (entriesOf h (protocolId entry) @ [entry])))
              \<longrightarrow> (\<forall>d \<in> set dropped.
                     \<forall>e \<in> set (entriesOf (recordEntry h entry now) (protocolId entry)).
                       timestamp d \<le> timestamp e)))
   \<and> (\<forall>pid. pid \<noteq> protocolId entry \<longrightarrow>
         entriesOf (recordEntry h entry now) pid = entriesOf h pid)
   \<and> (capped h \<longrightarrow> capped (recordEntry h entry now))"
proof -
  let ?pruned = "filter (\<lambda>e. timestamp e \<ge> fsub now (windowMs h)) (entriesOf h (protocolId entry) @ [entry])"
  let ?new = "entriesOf (recordEntry h entry now) (protocolId entry)"
  let ?dropped = "take (length ?pruned - MAX_ENTRIES_PER_PROTOCOL) ?pruned"
  have new: "?new = (if length ?pruned > MAX_ENTRIES_PER_PROTOCOL
                     then slice_last MAX_ENTRIES_PER_PROTOCOL ?pruned else ?pruned)"
    by (simp add: entriesOf_recordEntry_same Let_def)
  have sub: "set ?new \<subseteq> set ?pruned"
    unfolding new by (rule limited_subset)
  have "\<forall>e \<in> set ?pruned. timestamp e \<ge> fsub now (windowMs h)"
    unfolding set_filter by blast
  with sub have 1: "\<forall>e \<in> set ?new. timestamp e \<ge> fsub now (windowMs h)"
    by blast
  have 2: "length ?new \<le> MAX_ENTRIES_PER_PROTOCOL"
    unfolding new by (rule limited_length)
  have 3: "?pruned = ?dropped @ ?new \<and> length ?dropped = length ?pruned - MAX_ENTRIES_PER_PROTOCOL"
    unfolding new by (rule limited_suffix)
  have s3: "sorted (map timestamp ?pruned) \<longrightarrow>
              (\<forall>d \<in> set ?dropped. \<forall>e \<in> set ?new. timestamp d \<le> timestamp e)"
  proof
    assume srt: "sorted (map timestamp ?pruned)"
    show "\<forall>d \<in> set ?dropped. \<forall>e \<in> set ?new. timestamp d \<le> timestamp e"
      by (rule sorted_drop_retain [OF conjunct1 [OF 3] srt])
  qed
  have 4: "\<forall>pid. pid \<noteq> protocolId entry \<longrightarrow> entriesOf (recordEntry h entry now) pid = entriesOf h pid"
    by (simp add: entriesOf_recordEntry_other)
  have 5: "capped h \<longrightarrow> capped (recordEntry h entry now)"
    unfolding capped_iff using 2 4 by metis
  from 3 s3 have 6: "\<exists>dropped. ?pruned = dropped @ ?new
         \<and> length dropped = length ?pruned - MAX_ENTRIES_PER_PROTOCOL
         \<and> (sorted (map timestamp ?pruned) \<longrightarrow>
               (\<forall>d \<in> set dropped. \<forall>e \<in> set ?new. timestamp d \<le> timestamp e))"
    by blast
  from 1 2 6 4 5 show ?thesis by blast
qed

theorem recordEntry_prunes_witness:
  "capped ex_full
   \<and> compound \<noteq> protocolId (ex_entry aave (1/16) 20)
   \<and> sorted (map timestamp (filter (\<lambda>e. timestamp e \<ge> fsub 20 (windowMs ex_full))
                (entriesOf ex_full (protocolId (ex_entry aave (1/16) 20)) @ [ex_entry aave (1/16) 20])))
   \<and> entriesOf (recordEntry ex_full (ex_entry aave (1/16) 20) 20) aave
       = replicate 999 (ex_entry aave (1/32) 10) @ [ex_entry aave (1/16) 20]
   \<and> length (entriesOf (recordEntry ex_full (ex_entry aave (1/16) 20) 20) aave) \<le> MAX_ENTRIES_PER_PROTOCOL
   \<and> entriesOf (recordEntry ex_full (ex_entry aave (1/16) 20) 20) compound = entriesOf ex_full compound
   \<and> capped (recordEntry ex_full (ex_entry aave (1/16) 20) 20)"
proof -
  have a: "capped ex_full"
    by (simp add: capped_def allProtocolIds_def ex_full_def entriesOf_def MAX_ENTRIES_PER_PROTOCOL_def)
  have b: "compound \<noteq> protocolId (ex_entry aave (1/16) 20)" by (simp add: ex_entry_def)
  have s: "sorted (map timestamp (filter (\<lambda>e. timestamp e \<ge> fsub 20 (windowMs ex_full))
                (entriesOf ex_full (protocolId (ex_entry aave (1/16) 20)) @ [ex_entry aave (1/16) 20])))"
    by (simp add: ex_full_entries ex_entry_def ex_cutoffs sorted_append)
  have c: "entriesOf (recordEntry ex_full (ex_entry aave (1/16) 20) 20) aave
       = replicate 999 (ex_entry aave (1/32) 10) @ [ex_entry aave (1/16) 20]"
    by (simp add: entriesOf_recordEntry_same [of ex_full "ex_entry aave (1/16) 20" 20, simplified ex_entry_def, simplified]
          ex_full_entries ex_entry_def MAX_ENTRIES_PER_PROTOCOL_def slice_last_def ex_cutoffs Let_def)
  note t = recordEntry_prunes [of ex_full "ex_entry aave (1/16) 20" 20]
  from t have d: "length (entriesOf (recordEntry ex_full (ex_entry aave (1/16) 20) 20) aave) \<le> MAX_ENTRIES_PER_PROTOCOL"
    by (simp add: ex_entry_def)
  from t b have e: "entriesOf (recordEntry ex_full (ex_entry aave (1/16) 20) 20) compound = entriesOf ex_full compound"
    by blast
  from t a have f: "capped (recordEntry ex_full (ex_entry aave (1/16) 20) 20)" by blast
  from a b s c d e f show ?thesis by blast
qed

subsection \<open>Time-weighted average\<close>

lemma hoursToMs_one: "hoursToMs 1 = 3600000"
  by code_simp

lemma twapLoop_sums:
  "twapLoop xs (a, b) =
     (foldl (\<lambda>acc (e, e'). fadd acc (fmul (apy e) (fsub (timestamp e') (timestamp e)))) a
        (adjacentPairs xs),
      foldl (\<lambda>acc (e, e'). fadd acc (fsub (timestamp e') (timestamp e))) b (adjacentPairs xs))"
proof (induction xs "(a, b)" arbitrary: a b rule: twapLoop.induct)
  case (1 current "next" rest weightedSum totalWeight)
  then show ?case by (simp add: adjacentPairs_def Let_def)
next
  case (2 e)
  then show ?case by (simp add: adjacentPairs_def)
next
  case 3
  then show ?case by (simp add: adjacentPairs_def)
qed

lemma getTWAP_default: "getTWAP h pid None now = getTWAP h pid (Some 1) now"
  by (simp add: getTWAP_def)

lemma getTWAP_many:
  assumes "length (getEntries h pid (Some (hoursToMs w)) now) \<ge> 2"
  shows "getTWAP h pid (Some w) now =
     (let es = getEntries h pid (Some (hoursToMs w)) now;
          ss = sort_key timestamp es
      in Some \<lparr>twap = (if specTotalWeight ss now > 0
                        then fdiv (specWeightedSum ss now) (specTotalWeight ss now)
                        else apy (last ss)),
                sampleCount = length es,
                oldestSample = timestamp (hd ss), newestSample = timestamp (last ss)\<rparr>)"
proof -
  let ?es = "getEntries h pid (Some (hoursToMs w)) now"
  have "2 \<le> length xs \<Longrightarrow> length xs \<noteq> 0 \<and> length xs \<noteq> 1" for xs :: "RateEntry list"
    by (cases xs) auto
  with assms have ne: "length ?es \<noteq> 0" "length ?es \<noteq> 1" by blast+
  have w: "fmul (fmul (fmul (case Some w of None \<Rightarrow> 1 | Some w \<Rightarrow> w) 60) 60) 1000 = hoursToMs w"
    by (simp add: hoursToMs_def)
  show ?thesis
    unfolding getTWAP_def w Let_def twapLoop_sums specWeightedSum_def specTotalWeight_def
      specLastWeight_def
    using ne by (simp only: if_False split: prod.splits) simp
qed

lemma ex_tie_entries:
  "getEntries ex_tie aave (Some (hoursToMs 1)) 1000
     = [ex_entry aave (1/16) 1000, ex_entry aave (1/32) 1000]"
  by code_simp

lemma ex_entries:
  "getEntries (newRateHistory None) aave (Some (hoursToMs 1)) 11000 = []"
  "getEntries ex_one aave (Some (hoursToMs 1)) 11000 = [ex_entry aave (1/16) 9000]"
  "getEntries ex_two aave (Some (hoursToMs 1)) 11000
     = [ex_entry aave (1/16) 7000, ex_entry aave (1/32) 9000]"
  by code_simp+

text \<open>
  C3 as stated fails where the total weight is not positive: with two samples at the
  same instant as \<open>now\<close> every weight is 0, there is no quotient by the total
  weight, and \<open>getTWAP\<close> returns the rate of the most recent sample.
\<close>

theorem getTWAP_zero_weight_counterexample:
  "length (getEntries ex_tie aave (Some (hoursToMs 1)) 1000) = 2
   \<and> specTotalWeight (sort_key timestamp (getEntries ex_tie aave (Some (hoursToMs 1)) 1000)) 1000 = 0
   \<and> map_option twap (getTWAP ex_tie aave (Some 1) 1000) = Some (1/32)
   \<and> map_option twap (getTWAP ex_tie aave (Some 1) 1000)
       \<noteq> Some (fdiv (specWeightedSum (sort_key timestamp (getEntries ex_tie aave (Some (hoursToMs 1)) 1000)) 1000)
                     (specTotalWeight (sort_key timestamp (getEntries ex_tie aave (Some (hoursToMs 1)) 1000)) 1000))"
  by code_simp

text \<open>
  C3, amended.  \<open>getTWAP\<close> returns \<open>null\<close> when the window holds no sample; with
  exactly one sample it returns that sample's rate with \<open>sampleCount = 1\<close>; with two
  or more, the samples sorted by timestamp, \<open>sampleCount\<close> is their number and the
  value is the weighted sum divided by the total weight when the total weight is
  positive, and the most recent sample's rate otherwise.  (The window is
  \<open>windowHours\<close> hours; leaving it out means one hour, \<open>getTWAP_default\<close>.  Sums,
  products and the quotient are those of JavaScript numbers.)
\<close>

theorem getTWAP_cases:
  "(getEntries h pid (Some (hoursToMs w)) now = [] \<longrightarrow> getTWAP h pid (Some w) now = None)
   \<and> (\<forall>e. getEntries h pid (Some (hoursToMs w)) now = [e] \<longrightarrow>
         getTWAP h pid (Some w) now =
           Some \<lparr>twap = apy e, sampleCount = 1, oldestSample = timestamp e,
                 newestSample = timestamp e\<rparr>)
   \<and> (length (getEntries h pid (Some (hoursToMs w)) now) \<ge> 2 \<longrightarrow>
        sorted (map timestamp (sort_key timestamp (getEntries h pid (Some (hoursToMs w)) now)))
      \<and> (\<exists>r. getTWAP h pid (Some w) now = Some r
            \<and> sampleCount r = length (getEntries h pid (Some (hoursToMs w)) now)
            \<and> (specTotalWeight (sort_key timestamp (getEntries h pid (Some (hoursToMs w)) now)) now > 0 \<longrightarrow>
                 twap r = fdiv (specWeightedSum (sort_key timestamp (getEntries h pid (Some (hoursToMs w)) now)) now)
                               (specTotalWeight (sort_key timestamp (getEntries h pid (Some (hoursToMs w)) now)) now))
            \<and> (specTotalWeight (sort_key timestamp (getEntries h pid (Some (hoursToMs w)) now)) now \<le> 0 \<longrightarrow>
                 twap r = apy (last (sort_key timestamp (getEntries h pid (Some (hoursToMs w)) now))))))"
proof (intro conjI impI allI)
  assume "getEntries h pid (Some (hoursToMs w)) now = []"
  then show "getTWAP h pid (Some w) now = None" by (simp add: getTWAP_def hoursToMs_def)
next
  fix e assume "getEntries h pid (Some (hoursToMs w)) now = [e]"
  then show "getTWAP h pid (Some w) now =
           Some \<lparr>twap = apy e, sampleCount = 1, oldestSample = timestamp e, newestSample = timestamp e\<rparr>"
    by (simp add: getTWAP_def hoursToMs_def)
next
  show "sorted (map timestamp (sort_key timestamp (getEntries h pid (Some (hoursToMs w)) now)))"
    by (rule sorted_sort_key)
next
  assume "length (getEntries h pid (Some (hoursToMs w)) now) \<ge> 2"
  from getTWAP_many [OF this]
  show "\<exists>r. getTWAP h pid (Some w) now = Some r
            \<and> sampleCount r = length (getEntries h pid (Some (hoursToMs w)) now)
            \<and> (specTotalWeight (sort_key timestamp (getEntries h pid (Some (hoursToMs w)) now)) now > 0 \<longrightarrow>
                 twap r = fdiv (specWeightedSum (sort_key timestamp (getEntries h pid (Some (hoursToMs w)) now)) now)
                               (specTotalWeight (sort_key timestamp (getEntries h pid (Some (hoursToMs w)) now)) now))
            \<and> (specTotalWeight (sort_key timestamp (getEntries h pid (Some (hoursToMs w)) now)) now \<le> 0 \<longrightarrow>
                 twap r = apy (last (sort_key timestamp (getEntries h pid (Some (hoursToMs w)) now))))"
    by (simp add: Let_def)
qed

theorem getTWAP_cases_witness:
  "getEntries (newRateHistory None) aave (Some (hoursToMs 1)) 11000 = []
   \<and> getTWAP (newRateHistory None) aave (Some 1) 11000 = None
   \<and> getEntries ex_one aave (Some (hoursToMs 1)) 11000 = [ex_entry aave (1/16) 9000]
   \<and> map_option twap (getTWAP ex_one aave (Some 1) 11000) = Some (1/16)
   \<and> map_option sampleCount (getTWAP ex_one aave (Some 1) 11000) = Some 1
   \<and> length (getEntries ex_two aave (Some (hoursToMs 1)) 11000) \<ge> 2
   \<and> specTotalWeight (sort_key timestamp (getEntries ex_two aave (Some (hoursToMs 1)) 11000)) 11000 > 0
   \<and> map_option twap (getTWAP ex_two aave (Some 1) 11000) = Some (3/64)
   \<and> map_option sampleCount (getTWAP ex_two aave (Some 1) 11000) = Some 2"
proof -
  note e = ex_entries
  have sw: "specTotalWeight (sort_key timestamp (getEntries ex_two aave (Some (hoursToMs 1)) 11000)) 11000 = 4000"
       "specWeightedSum (sort_key timestamp (getEntries ex_two aave (Some (hoursToMs 1)) 11000)) 11000 = 375/2"
       "fdiv (375/2) 4000 = 3/64"
    by code_simp+
  have l: "length (getEntries ex_two aave (Some (hoursToMs 1)) 11000) \<ge> 2"
    unfolding e by simp
  note t0 = getTWAP_cases [of "newRateHistory None" aave 1 11000, THEN conjunct1, rule_format, OF e(1)]
  note t1 = getTWAP_cases [of ex_one aave 1 11000, THEN conjunct2, THEN conjunct1, rule_format, OF e(2)]
  note t2 = getTWAP_cases [of ex_two aave 1 11000, THEN conjunct2, THEN conjunct2, rule_format, OF l]
  from t2 obtain r where r: "getTWAP ex_two aave (Some 1) 11000 = Some r"
      "sampleCount r = length (getEntries ex_two aave (Some (hoursToMs 1)) 11000)"
      "specTotalWeight (sort_key timestamp (getEntries ex_two aave (Some (hoursToMs 1)) 11000)) 11000 > 0 \<longrightarrow>
         twap r = fdiv (specWeightedSum (sort_key timestamp (getEntries ex_two aave (Some (hoursToMs 1)) 11000)) 11000)
                       (specTotalWeight (sort_key timestamp (getEntries ex_two aave (Some (hoursToMs 1)) 11000)) 11000)"
    by blast
  have r2: "map_option twap (getTWAP ex_two aave (Some 1) 11000) = Some (3/64)"
    using r(1) r(3) by (simp add: sw)
  have r3: "map_option sampleCount (getTWAP ex_two aave (Some 1) 11000) = Some 2"
    using r(1) r(2) by (simp add: e)
  have r1: "map_option twap (getTWAP ex_one aave (Some 1) 11000) = Some (1/16)"
       "map_option sampleCount (getTWAP ex_one aave (Some 1) 11000) = Some 1"
    using t1 by (simp_all add: ex_entry_def)
  from e t0 r1 l sw(1) r2 r3 show ?thesis by simp
qed

subsection \<open>Anomaly detection\<close>

lemma getTWAP_Some:
  assumes "length (getEntries h pid (Some RATE_VELOCITY_WINDOW_MS) now) \<ge> 2"
  shows "\<exists>t. getTWAP h pid (Some 1) now = Some t"
proof -
  have "length (getEntries h pid (Some (hoursToMs 1)) now) \<ge> 2"
    using assms by (simp add: RATE_VELOCITY_WINDOW_MS_def hoursToMs_one)
  from getTWAP_many [OF this] show ?thesis by (simp add: Let_def)
qed

text \<open>
  C2 as stated fails where the reference rate is not positive.  The oldest sample in
  the window has rate 0 and the newest 0.0625: the change exceeds any fraction of the
  oldest rate, and the newest rate differs from the time-weighted average (0) by more
  than any fraction of it, yet the verdict is not suspicious, because the velocity
  check is skipped unless the oldest rate is positive and the deviation check is
  skipped unless the average is positive.
\<close>

theorem detectAnomalies_zero_base_counterexample:
  "length (getEntries ex_zero aave (Some RATE_VELOCITY_WINDOW_MS) 100000) = 2
   \<and> apy (hd (sort_key timestamp (getEntries ex_zero aave (Some RATE_VELOCITY_WINDOW_MS) 100000))) = 0
   \<and> apy (last (sort_key timestamp (getEntries ex_zero aave (Some RATE_VELOCITY_WINDOW_MS) 100000))) = 1/16
   \<and> \<bar>1/16 - 0\<bar> > (1/2) * \<bar>0 :: rat\<bar>
   \<and> map_option twap (getTWAP ex_zero aave (Some 1) 100000) = Some 0
   \<and> \<bar>1/16 - 0\<bar> > (1/5) * \<bar>0 :: rat\<bar>
   \<and> \<not> suspicious (detectAnomalies ex_zero aave None 100000)"
  by code_simp

text \<open>
  C2, amended.  With fewer than two samples in the 1-hour window the verdict is not
  suspicious, reason \<open>insufficient_data\<close>.  With two or more: if the oldest rate is
  positive and the fractional change \<open>|latest - oldest| / oldest\<close> (latest being the
  supplied rate, else the newest sample's) exceeds 0.5, the verdict is suspicious with
  reason \<open>high_rate_velocity\<close>, severity high above 1.0 and medium otherwise, whatever
  the deviation check would say.  Otherwise the 1-hour average exists, and if it is
  positive and \<open>|latest - average| / average\<close> exceeds 0.2, the verdict is
  suspicious with reason \<open>twap_deviation\<close>, severity high above 0.5 and medium
  otherwise; in every other case the verdict is not suspicious.  The differences and
  quotients are those of JavaScript numbers, and 0.2 is the binary64 value of that
  literal.
\<close>

theorem detectAnomalies_checks:
  "(let es = getEntries h pid (Some RATE_VELOCITY_WINDOW_MS) now;
        ss = sort_key timestamp es;
        latest = (case cur of None \<Rightarrow> apy (last ss) | Some c \<Rightarrow> c);
        oldest = apy (hd ss);
        change = fdiv \<bar>fsub latest oldest\<bar> oldest;
        r = detectAnomalies h pid cur now
    in (length es < 2 \<longrightarrow> \<not> suspicious r \<and> reason r = Some ''insufficient_data'')
     \<and> (length es \<ge> 2 \<longrightarrow>
          (oldest > 0 \<and> change > 1/2 \<longrightarrow>
             suspicious r \<and> reason r = Some ''high_rate_velocity''
             \<and> severity r = Some (if change > 1 then high else medium))
        \<and> (\<not> (oldest > 0 \<and> change > 1/2) \<longrightarrow>
             (\<exists>t. getTWAP h pid (Some 1) now = Some t
                \<and> (twap t > 0 \<and> fdiv \<bar>fsub latest (twap t)\<bar> (twap t) > round64 (1/5) \<longrightarrow>
                     suspicious r \<and> reason r = Some ''twap_deviation''
                     \<and> severity r =
                         Some (if fdiv \<bar>fsub latest (twap t)\<bar> (twap t) > 1/2 then high else medium))
                \<and> (\<not> (twap t > 0 \<and> fdiv \<bar>fsub latest (twap t)\<bar> (twap t) > round64 (1/5)) \<longrightarrow>
                     \<not> suspicious r \<and> reason r = None)))))"
proof -
  let ?es = "getEntries h pid (Some RATE_VELOCITY_WINDOW_MS) now"
  show ?thesis
  proof (cases "length ?es < 2")
    case True
    then show ?thesis by (simp add: detectAnomalies_def Let_def)
  next
    case False
    then have "length ?es \<ge> 2" by simp
    from getTWAP_Some [OF this] obtain t where t: "getTWAP h pid (Some 1) now = Some t" ..
    from False show ?thesis
      by (simp add: detectAnomalies_def Let_def velocityCheck_def deviationCheck_def t
            RATE_VELOCITY_THRESHOLD_def)
  qed
qed

lemma ex_window_entries:
  "getEntries ex_one aave (Some RATE_VELOCITY_WINDOW_MS) 11000 = [ex_entry aave (1/16) 9000]"
  "getEntries (ex_hist (1/32) 70000 (1/16) 100000) aave (Some RATE_VELOCITY_WINDOW_MS) 100000
     = [ex_entry aave (1/32) 70000, ex_entry aave (1/16) 100000]"
  "getEntries (ex_hist (1/32) 70000 (1/32) 100000) aave (Some RATE_VELOCITY_WINDOW_MS) 100000
     = [ex_entry aave (1/32) 70000, ex_entry aave (1/32) 100000]"
  "getEntries (ex_hist (1/16) 70000 (1/32) 71000) aave (Some RATE_VELOCITY_WINDOW_MS) 100000
     = [ex_entry aave (1/16) 70000, ex_entry aave (1/32) 71000]"
  "getEntries (ex_hist (1/32) 70000 (33/1024) 100000) aave (Some RATE_VELOCITY_WINDOW_MS) 100000
     = [ex_entry aave (1/32) 70000, ex_entry aave (33/1024) 100000]"
  "getEntries (ex_hist (1/16) 70000 (9007199254740991/288230376151711744) 70001) aave
      (Some RATE_VELOCITY_WINDOW_MS) 100000
     = [ex_entry aave (1/16) 70000, ex_entry aave (9007199254740991/288230376151711744) 70001]"
  by code_simp+

lemma ex_changes:
  "fdiv \<bar>fsub (1/16) (1/32)\<bar> (1/32) = 1"
  "fdiv \<bar>fsub (3/32) (1/32)\<bar> (1/32) = 2"
  "fdiv \<bar>fsub (3/64) (1/16)\<bar> (1/16) = 1/4"
  "fdiv \<bar>fsub (33/1024) (1/32)\<bar> (1/32) = 1/32"
  "fdiv \<bar>fsub (9007199254740991/288230376151711744) (1/16)\<bar> (1/16) = 1/2"
  by code_simp+

lemma ex_twaps:
  "case getTWAP (ex_hist (1/16) 70000 (1/32) 71000) aave (Some 1) 100000 of
     None \<Rightarrow> False
   | Some t \<Rightarrow> twap t > 0 \<and> fdiv \<bar>fsub (3/64) (twap t)\<bar> (twap t) > round64 (1/5)
               \<and> \<not> fdiv \<bar>fsub (3/64) (twap t)\<bar> (twap t) > 1/2"
  "case getTWAP (ex_hist (1/32) 70000 (33/1024) 100000) aave (Some 1) 100000 of
     None \<Rightarrow> False
   | Some t \<Rightarrow> \<not> fdiv \<bar>fsub (33/1024) (twap t)\<bar> (twap t) > round64 (1/5)"
  "case getTWAP (ex_hist (1/16) 70000 (9007199254740991/288230376151711744) 70001) aave (Some 1) 100000 of
     None \<Rightarrow> False
   | Some t \<Rightarrow> \<not> fdiv \<bar>fsub (9007199254740991/288230376151711744) (twap t)\<bar> (twap t)
                   > round64 (1/5)"
  by code_simp+

theorem detectAnomalies_checks_witness:
  "length (getEntries ex_one aave (Some RATE_VELOCITY_WINDOW_MS) 11000) < 2
   \<and> \<not> suspicious (detectAnomalies ex_one aave None 11000)
   \<and> reason (detectAnomalies ex_one aave None 11000) = Some ''insufficient_data''
   \<and> length (getEntries (ex_hist (1/32) 70000 (1/16) 100000) aave (Some RATE_VELOCITY_WINDOW_MS) 100000) \<ge> 2
   \<and> suspicious (detectAnomalies (ex_hist (1/32) 70000 (1/16) 100000) aave None 100000)
   \<and> reason (detectAnomalies (ex_hist (1/32) 70000 (1/16) 100000) aave None 100000)
        = Some ''high_rate_velocity''
   \<and> severity (detectAnomalies (ex_hist (1/32) 70000 (1/16) 100000) aave None 100000) = Some medium
   \<and> severity (detectAnomalies (ex_hist (1/32) 70000 (1/32) 100000) aave (Some (3/32)) 100000) = Some high
   \<and> reason (detectAnomalies (ex_hist (1/16) 70000 (1/32) 71000) aave (Some (3/64)) 100000)
        = Some ''twap_deviation''
   \<and> severity (detectAnomalies (ex_hist (1/16) 70000 (1/32) 71000) aave (Some (3/64)) 100000)
        = Some medium
   \<and> \<not> suspicious (detectAnomalies (ex_hist (1/32) 70000 (33/1024) 100000) aave None 100000)
   \<and> reason (detectAnomalies (ex_hist (1/32) 70000 (33/1024) 100000) aave None 100000) = None
   \<and> \<not> suspicious (detectAnomalies
          (ex_hist (1/16) 70000 (9007199254740991/288230376151711744) 70001) aave None 100000)"
proof -
  note e = ex_window_entries
  have a: "\<not> suspicious (detectAnomalies ex_one aave None 11000)
        \<and> reason (detectAnomalies ex_one aave None 11000) = Some ''insufficient_data''"
    using detectAnomalies_checks [of ex_one aave 11000 None]
    by (simp add: Let_def e)
  have b: "suspicious (detectAnomalies (ex_hist (1/32) 70000 (1/16) 100000) aave None 100000)
        \<and> reason (detectAnomalies (ex_hist (1/32) 70000 (1/16) 100000) aave None 100000)
             = Some ''high_rate_velocity''
        \<and> severity (detectAnomalies (ex_hist (1/32) 70000 (1/16) 100000) aave None 100000) = Some medium"
    using detectAnomalies_checks [of "ex_hist (1/32) 70000 (1/16) 100000" aave 100000 None]
    by (simp add: Let_def e ex_entry_def ex_changes)
  have c: "severity (detectAnomalies (ex_hist (1/32) 70000 (1/32) 100000) aave (Some (3/32)) 100000) = Some high"
    using detectAnomalies_checks [of "ex_hist (1/32) 70000 (1/32) 100000" aave 100000 "Some (3/32)"]
    by (simp add: Let_def e ex_entry_def ex_changes)
  have d: "reason (detectAnomalies (ex_hist (1/16) 70000 (1/32) 71000) aave (Some (3/64)) 100000)
             = Some ''twap_deviation''
        \<and> severity (detectAnomalies (ex_hist (1/16) 70000 (1/32) 71000) aave (Some (3/64)) 100000)
             = Some medium"
    using detectAnomalies_checks [of "ex_hist (1/16) 70000 (1/32) 71000" aave 100000 "Some (3/64)"]
      ex_twaps(1)
    by (auto simp add: Let_def e ex_entry_def ex_changes split: option.splits)
  have f: "\<not> suspicious (detectAnomalies (ex_hist (1/32) 70000 (33/1024) 100000) aave None 100000)
        \<and> reason (detectAnomalies (ex_hist (1/32) 70000 (33/1024) 100000) aave None 100000) = None"
    using detectAnomalies_checks [of "ex_hist (1/32) 70000 (33/1024) 100000" aave 100000 None]
      ex_twaps(2)
    by (auto simp add: Let_def e ex_entry_def ex_changes split: option.splits)
  have g: "\<not> suspicious (detectAnomalies
          (ex_hist (1/16) 70000 (9007199254740991/288230376151711744) 70001) aave None 100000)"
    using detectAnomalies_checks
            [of "ex_hist (1/16) 70000 (9007199254740991/288230376151711744) 70001" aave 100000 None]
      ex_twaps(3)
    by (auto simp add: Let_def e ex_entry_def ex_changes split: option.splits)
  from a b c d f g show ?thesis by (simp add: e)
qed

section \<open>Properties of the yield monitor\<close>

subsection \<open>The decision of compareYields\<close>















subsection \<open>The data source reported by getSnapshots\<close>

lemma snapshotStep_counts:
  "snapshotStep d now (res, oc, dc, h) pr = (res', oc', dc', h') \<Longrightarrow>
   oc' = oc + (if resolutionOf d pr = ViaOnchain then 1 else 0)
   \<and> dc' = dc + (if resolutionOf d pr = ViaDefillama then 1 else 0)"
  by (cases pr) (auto simp: resolutionOf_def Let_def split: option.splits)

lemma foldl_snapshotStep_counts:
  "foldl (snapshotStep d now) (res, oc, dc, h) ps = (res', oc', dc', h') \<Longrightarrow>
   oc' = oc + count_list (map (resolutionOf d) ps) ViaOnchain
   \<and> dc' = dc + count_list (map (resolutionOf d) ps) ViaDefillama"
proof (induction ps arbitrary: res oc dc h)
  case Nil
  then show ?case by simp
next
  case (Cons pr ps)
  obtain r1 o1 d1 h1 where st: "snapshotStep d now (res, oc, dc, h) pr = (r1, o1, d1, h1)"
    by (cases "snapshotStep d now (res, oc, dc, h) pr") auto
  from Cons.prems have "foldl (snapshotStep d now) (r1, o1, d1, h1) ps = (res', oc', dc', h')"
    by (simp add: st)
  from Cons.IH [OF this] snapshotStep_counts [OF st] show ?case by auto
qed

text \<open>
  What \<open>getSnapshots\<close> reports: \<open>onchain\<close> when no protocol was served by
  DeFiLlama, \<open>defillama\<close> when some was and none was read on-chain, \<open>mixed\<close>
  otherwise.  Protocols served from the last known rate count for neither.
\<close>

lemma getSnapshots_dataSource:
  "fst (snd (getSnapshots cfg fetch ps h now)) =
     (let rs = map (resolutionOf (if useDeFiLlamaFallback cfg then fetch else None)) ps
      in if ViaDefillama \<notin> set rs then ds_onchain
         else if ViaOnchain \<notin> set rs then ds_defillama
         else ds_mixed)"
proof -
  let ?d = "if useDeFiLlamaFallback cfg then fetch else None"
  obtain res oc dc h' where f: "foldl (snapshotStep ?d now) ([], 0, 0, h) ps = (res, oc, dc, h')"
    by (cases "foldl (snapshotStep ?d now) ([], 0, 0, h) ps") auto
  from foldl_snapshotStep_counts [OF f]
  have c: "oc = count_list (map (resolutionOf ?d) ps) ViaOnchain"
          "dc = count_list (map (resolutionOf ?d) ps) ViaDefillama" by simp_all
  show ?thesis
    unfolding getSnapshots_def Let_def f
    by (simp add: c count_list_0_iff)
qed

text \<open>
  C8 fails on the code.  Every on-chain read is rejected and the DeFiLlama fetch
  throws: both snapshots come from the history's last known rate (0 where there is
  none) with balance 0, no protocol resolved on-chain, and the data source reported
  is \<open>onchain\<close>.
\<close>

theorem getSnapshots_all_failed_reports_onchain:
  "map (resolutionOf None) [(ex_aave, ex_failed), (ex_compound, ex_failed)]
     = [ViaLastKnown, ViaLastKnown]
   \<and> map apyPercent (fst (getSnapshots DEFAULT_CONFIG None [(ex_aave, ex_failed), (ex_compound, ex_failed)]
        (rateHistory (ex_monitor [ex_entry compound (1/32) 70000])) 100000)) = [0, 1/32]
   \<and> map balance (fst (getSnapshots DEFAULT_CONFIG None [(ex_aave, ex_failed), (ex_compound, ex_failed)]
        (rateHistory (ex_monitor [ex_entry compound (1/32) 70000])) 100000)) = [0, 0]
   \<and> fst (snd (getSnapshots DEFAULT_CONFIG None [(ex_aave, ex_failed), (ex_compound, ex_failed)]
        (rateHistory (ex_monitor [ex_entry compound (1/32) 70000])) 100000)) = ds_onchain"
  by code_simp

section \<open>Properties of the session key custody\<close>

lemma ex_manager_keys: "encryptedKeys ex_manager = [(''0xabc'', ex_key)]" "encryptionKey ex_manager = ''master''"
  by (simp_all add: ex_manager_def loadEncryptedKey_def ex_key_def)

lemma ex_bytes: "bytesToHex ''AB'' = ''0x4142''"
  by (simp add: bytesToHex_def hexLower_def)

text \<open>
  What \<open>decryptForSigning\<close> does: no key stored, \<open>NoSessionKey\<close>; a key with
  \<open>now / 1000 > validUntil\<close> (the binary64 quotient), \<open>SessionKeyExpired\<close> and nothing handed to the
  decipher; otherwise the decipher runs, and on success the result carries the
  address, the plaintext key in hex and the key's configuration.
\<close>

lemma decryptForSigning_cases:
  "(map_of (encryptedKeys m) addr = None \<longrightarrow>
      decryptForSigning dec m addr now = (Inl NoSessionKey, []))
   \<and> (\<forall>k. map_of (encryptedKeys m) addr = Some k \<and> fdiv now 1000 > validUntil (esk_config k) \<longrightarrow>
         decryptForSigning dec m addr now = (Inl SessionKeyExpired, []))
   \<and> (\<forall>k bytes. map_of (encryptedKeys m) addr = Some k \<and> fdiv now 1000 \<le> validUntil (esk_config k)
         \<and> dec (encryptionKey m) (encryptedPrivateKey k) (iv k) (authTag k) = Some bytes \<longrightarrow>
         decryptForSigning dec m addr now =
           (Inr \<lparr>dsk_address = esk_address k, privateKey = bytesToHex bytes, dsk_config = esk_config k\<rparr>,
            [encryptedPrivateKey k]))"
  by (auto simp: decryptForSigning_def)

lemma ex_seconds:
  "fdiv 1700000000000 1000 = 1700000000"
  "fdiv 1700000000001 1000 > 1700000000"
  by code_simp+

text \<open>
  C6 fails on the code at the instant \<open>now = validUntil\<close>.  At millisecond
  1700000000000 a key valid until second 1700000000 is decrypted and returned,
  although \<open>getValidSessionKeys\<close> no longer lists it, \<open>cleanupExpired\<close> removes
  it as expired and the wallet contract rejects it; one millisecond later
  \<open>decryptForSigning\<close> refuses it too.
\<close>

theorem decryptForSigning_at_validUntil:
  "map_option (validUntil \<circ> esk_config) (map_of (encryptedKeys ex_manager) ''0xabc'') = Some 1700000000
   \<and> fdiv 1700000000000 1000 = 1700000000
   \<and> decryptForSigning ex_dec ex_manager ''0xabc'' 1700000000000
       = (Inr \<lparr>dsk_address = ''0xabc'', privateKey = ''0x4142'',
               dsk_config = \<lparr>validUntil = 1700000000, spendLimit = 100000000\<rparr>\<rparr>,
          [''c2VjcmV0''])
   \<and> getValidSessionKeys ex_manager 1700000000000 = []
   \<and> fst (cleanupExpired ex_manager 1700000000000) = 1
   \<and> contractRejectsSessionKey 1700000000 1700000000
   \<and> fst (decryptForSigning ex_dec ex_manager ''0xabc'' 1700000000001) = Inl SessionKeyExpired"
  by (simp add: ex_manager_keys decryptForSigning_def getValidSessionKeys_def cleanupExpired_def
        contractRejectsSessionKey_def ex_key_def ex_dec_def ex_bytes ex_seconds Let_def)

end
